theory Spec2Isabelle
  imports Complex_Main "HOL-Library.Log_Nat"
begin

section \<open>Braking-distance demo: the run-state script over a rigid-body backend\<close>

text \<open>
  The script \<^verbatim>\<open>script.js\<close> keeps its run state in module-level variables and
  reacts to callbacks of a physics engine (\<^verbatim>\<open>beforeUpdate\<close>, \<^verbatim>\<open>collisionStart\<close>) and
  to button clicks. The embedding passes that state explicitly: every handler
  is a function from state to state.

  JavaScript numbers are modelled as rationals. Velocities, forces and the
  thresholds they are compared with are taken as the decimal values the
  source writes down. The one number the script shows to the user, the
  braking distance, is computed with the rounding of binary64 arithmetic
  (\<open>roundDouble\<close> below), because its printed digit depends on it.
  The engine itself (integration of motion, collision detection) is not part
  of the script; its effect on the car between two callbacks is an event that
  carries the new position and velocity. Vertical positions, colours and the
  bodies' shapes play no part in the run state and are left out.
\<close>

subsection \<open>Constants and lookup tables\<close>

definition SCALE :: rat where
  "SCALE = 10"

definition CAR_MASS :: rat where
  "CAR_MASS = 1000"

definition BRAKE_LINE_X :: rat where
  "BRAKE_LINE_X = 150"

text \<open>The keys of \<^verbatim>\<open>SPEED_MAP\<close> (30, 60, 100) and of the weather tables.\<close>

datatype speed_key = kmh30 | kmh60 | kmh100

datatype weather = sunny | rainy | icy

fun SPEED_MAP :: "speed_key \<Rightarrow> rat" where
  "SPEED_MAP kmh30 = 8"
| "SPEED_MAP kmh60 = 15"
| "SPEED_MAP kmh100 = 22"

fun FRICTION_MAP :: "weather \<Rightarrow> rat" where
  "FRICTION_MAP sunny = 8 / 10"
| "FRICTION_MAP rainy = 4 / 10"
| "FRICTION_MAP icy = 5 / 100"

fun BRAKING_FORCE_MAP :: "weather \<Rightarrow> rat" where
  "BRAKING_FORCE_MAP sunny = 15 / 100"
| "BRAKING_FORCE_MAP rainy = 8 / 100"
| "BRAKING_FORCE_MAP icy = 2 / 100"

subsection \<open>State\<close>

text \<open>
  The car body as the script reads and writes it: position and velocity along
  the travel axis (and the vertical velocity, which \<^verbatim>\<open>setVelocity\<close> carries
  along), the force accumulated by \<^verbatim>\<open>Body.applyForce\<close>, mass and friction.
\<close>

record body =
  position_x :: rat
  velocity_x :: rat
  velocity_y :: rat
  force_x :: rat
  mass :: rat
  friction :: rat
  frictionAir :: rat

text \<open>
  The distance text is the result of \<^verbatim>\<open>toFixed(1)\<close>: digits with one decimal
  place, kept as the number of tenths they denote (\<open>Tenths 153\<close> for
  \<^verbatim>\<open>"15.3"\<close>), or, for a number of magnitude \<open>10\<^sup>2\<^sup>1\<close> or more, the plain
  conversion of the number to a string (\<^verbatim>\<open>"1e+21"\<close>), kept as that number.
  A row of the history table has speed, weather, the distance text and the
  outcome.
\<close>

datatype distance_text = Tenths int | NumberString rat

record history_row =
  row_speed :: speed_key
  row_weather :: weather
  row_distance :: distance_text
  row_crashed :: bool

text \<open>
  The module-level variables, the parts of the world that \<^verbatim>\<open>resetWorld\<close> builds
  from them, and the page elements the script writes: the viewport requested
  through \<^verbatim>\<open>Render.lookAt\<close>, the start button, the result overlay (\<open>None\<close>
  when hidden, otherwise the distance in tenths and whether it is styled as a
  crash) and the rows of the history table, newest first.
\<close>

record sim =
  currentObstacleDistance :: rat
  currentSpeed :: speed_key
  currentWeather :: weather
  lowSpeedCounter :: nat
  hasCrashed :: bool
  hasFinished :: bool
  isRunning :: bool
  brakingStarted :: bool
  carBody :: body
  groundFriction :: rat
  obstacleX :: rat
  renderWidth :: rat
  viewMinX :: rat
  viewMaxX :: rat
  start_btn_disabled :: bool
  result_overlay :: "(distance_text \<times> bool) option"
  history_body :: "history_row list"

subsection \<open>Backend and page primitives\<close>

definition setVelocity :: "rat \<Rightarrow> rat \<Rightarrow> sim \<Rightarrow> sim" where
  "setVelocity vx vy s = s\<lparr>carBody := (carBody s)\<lparr>velocity_x := vx, velocity_y := vy\<rparr>\<rparr>"

definition applyForce :: "rat \<Rightarrow> sim \<Rightarrow> sim" where
  "applyForce fx s = s\<lparr>carBody := (carBody s)\<lparr>force_x := force_x (carBody s) + fx\<rparr>\<rparr>"

definition lookAt :: "rat \<Rightarrow> rat \<Rightarrow> sim \<Rightarrow> sim" where
  "lookAt lo hi s = s\<lparr>viewMinX := lo, viewMaxX := hi\<rparr>"

text \<open>
  Binary64 arithmetic: the result of an operation is the exact result rounded
  to the nearest number with a 53-bit significand, the one with an even
  significand on a tie. \<open>binade y\<close> is the exponent \<open>e\<close> with
  \<open>2\<^sup>e \<le> y < 2\<^sup>e\<^sup>+\<^sup>1\<close> for positive \<open>y\<close>; the spacing of the doubles around
  \<open>y\<close> is \<open>2\<^sup>e\<^sup>-\<^sup>5\<^sup>2\<close>, and \<open>2\<^sup>-\<^sup>1\<^sup>0\<^sup>7\<^sup>4\<close> in the subnormal range. Overflow to
  infinity does not arise in the two operations that use it, a subtraction of
  150 from a double and a division of a double by 10.
\<close>

definition binade :: "rat \<Rightarrow> int" where
  "binade y =
     (case quotient_of y of (a, b) \<Rightarrow>
        (let e0 = bitlen a - bitlen b in if 2 powi e0 \<le> y then e0 else e0 - 1))"

definition roundHalfEven :: "rat \<Rightarrow> int" where
  "roundHalfEven z =
     (let f = \<lfloor>z\<rfloor>; r = z - of_int f
      in if r < 1 / 2 then f else if 1 / 2 < r then f + 1 else if even f then f else f + 1)"

definition quantum :: "rat \<Rightarrow> rat" where
  "quantum y = 2 powi (max (binade y) (- 1022) - 52)"

definition roundDouble :: "rat \<Rightarrow> rat" where
  "roundDouble y =
     (if y = 0 then 0
      else if y < 0 then - (of_int (roundHalfEven (- y / quantum (- y))) * quantum (- y))
      else of_int (roundHalfEven (y / quantum y)) * quantum y)"

text \<open>
  \<^verbatim>\<open>x.toFixed(1)\<close> for a double \<open>x\<close>: a number of magnitude \<open>10\<^sup>2\<^sup>1\<close> or more is
  converted as it is; otherwise the text is the integer \<open>n\<close> for which \<open>n / 10\<close>
  is closest to the exact value of \<open>x\<close>, the larger one on a tie, with a
  negative \<open>x\<close> formatted through its absolute value.
\<close>

definition toFixed1 :: "rat \<Rightarrow> distance_text" where
  "toFixed1 x =
     (if 10 ^ 21 \<le> \<bar>x\<bar> then NumberString x
      else if x < 0 then Tenths (- \<lfloor>(- x) * 10 + 1 / 2\<rfloor>)
      else Tenths \<lfloor>x * 10 + 1 / 2\<rfloor>)"

definition addToHistory ::
  "speed_key \<Rightarrow> weather \<Rightarrow> distance_text \<Rightarrow> bool \<Rightarrow> sim \<Rightarrow> sim" where
  "addToHistory speed w distance crashed s =
     s\<lparr>history_body :=
         \<lparr>row_speed = speed, row_weather = w, row_distance = distance, row_crashed = crashed\<rparr>
         # history_body s\<rparr>"

definition showResult :: "distance_text \<Rightarrow> bool \<Rightarrow> sim \<Rightarrow> sim" where
  "showResult distance crashed s = s\<lparr>result_overlay := Some (distance, crashed)\<rparr>"

subsection \<open>The handlers\<close>

definition newCar :: body where
  "newCar = \<lparr>position_x = - 100, velocity_x = 0, velocity_y = 0, force_x = 0,
             mass = CAR_MASS, friction = 0, frictionAir = 1 / 100\<rparr>"

definition resetWorld :: "sim \<Rightarrow> sim" where
  "resetWorld s =
     lookAt (- 100 - 200) (- 100 + renderWidth s - 200)
       (s\<lparr>brakingStarted := False,
          isRunning := False,
          hasCrashed := False,
          hasFinished := False,
          result_overlay := None,
          start_btn_disabled := False,
          groundFriction := FRICTION_MAP (currentWeather s),
          obstacleX := BRAKE_LINE_X + currentObstacleDistance s,
          carBody := newCar\<rparr>)"

definition startSimulation :: "sim \<Rightarrow> sim" where
  "startSimulation s =
     (if isRunning s then s
      else
        (let s1 = s\<lparr>isRunning := True, lowSpeedCounter := 0, hasCrashed := False,
                     hasFinished := False, start_btn_disabled := True\<rparr>;
             velocity = SPEED_MAP (currentSpeed s1);
             s2 = setVelocity velocity 0 s1
         in s2\<lparr>carBody := (carBody s2)\<lparr>friction := 0, frictionAir := 0\<rparr>\<rparr>))"

definition finishSimulation :: "bool \<Rightarrow> sim \<Rightarrow> sim" where
  "finishSimulation crashed s =
     (if hasFinished s \<and> crashed \<and> \<not> hasCrashed s then
        showResult
          (toFixed1
             (roundDouble (max 0 (roundDouble (position_x (carBody s) - BRAKE_LINE_X)) / SCALE)))
          True (s\<lparr>hasCrashed := True\<rparr>)
      else if hasFinished s then s
      else
        (let s1 = (if crashed then s\<lparr>hasCrashed := True\<rparr> else s);
             s2 = s1\<lparr>hasFinished := True, isRunning := False\<rparr>;
             stopX = position_x (carBody s2);
             distancePx = max 0 (roundDouble (stopX - BRAKE_LINE_X));
             distanceM = toFixed1 (roundDouble (distancePx / SCALE))
         in showResult distanceM crashed
              (addToHistory (currentSpeed s2) (currentWeather s2) distanceM crashed s2)))"

text \<open>
  The four parts of \<^verbatim>\<open>handleUpdate\<close>, in the order the function runs them.
  The camera part is guarded by \<^verbatim>\<open>if (carBody)\<close>; the car exists from \<^verbatim>\<open>init\<close> on,
  before any callback can run, so the guard is always passed.
\<close>

definition followCamera :: "sim \<Rightarrow> sim" where
  "followCamera s =
     (let carX = position_x (carBody s); padding = 200
      in lookAt (carX - padding) (carX + renderWidth s - padding) s)"

definition checkBrakeLine :: "sim \<Rightarrow> sim" where
  "checkBrakeLine s =
     (if \<not> brakingStarted s \<and> position_x (carBody s) \<ge> BRAKE_LINE_X
      then s\<lparr>brakingStarted := True\<rparr> else s)"

definition driveOrBrake :: "sim \<Rightarrow> sim" where
  "driveOrBrake s =
     (if \<not> brakingStarted s then
        (let targetSpeed = SPEED_MAP (currentSpeed s)
         in if velocity_x (carBody s) < targetSpeed
            then setVelocity targetSpeed (velocity_y (carBody s)) s else s)
      else
        (let brakingForce = BRAKING_FORCE_MAP (currentWeather s);
             currentVelocity = velocity_x (carBody s)
         in if currentVelocity > 5 / 10 then
              applyForce (- currentVelocity * brakingForce * mass (carBody s) * (1 / 1000)) s
            else if currentVelocity > 1 / 100 then
              applyForce (- currentVelocity * brakingForce * mass (carBody s) * (1 / 100)) s
            else s))"

definition checkStopped :: "sim \<Rightarrow> sim" where
  "checkStopped s =
     (if brakingStarted s \<and> \<not> hasCrashed s \<and> \<not> hasFinished s then
        (let speed = \<bar>velocity_x (carBody s)\<bar>
         in if speed < 3 / 10 then
              (let s1 = s\<lparr>lowSpeedCounter := lowSpeedCounter s + 1\<rparr>
               in if lowSpeedCounter s1 > 30 \<or> speed < 5 / 100
                  then finishSimulation False (setVelocity 0 0 s1) else s1)
            else s\<lparr>lowSpeedCounter := 0\<rparr>)
      else s)"

definition handleUpdate :: "sim \<Rightarrow> sim" where
  "handleUpdate s =
     (if \<not> isRunning s then s
      else checkStopped (driveOrBrake (checkBrakeLine (followCamera s))))"

text \<open>
  \<^verbatim>\<open>handleCollision\<close>: the loop over the reported pairs (body labels), leaving at
  the first pair of car and dummy.
\<close>

fun collisionPairs :: "(string \<times> string) list \<Rightarrow> sim \<Rightarrow> sim" where
  "collisionPairs [] s = s"
| "collisionPairs ((labelA, labelB) # pairs) s =
     (if (labelA = ''car'' \<and> labelB = ''dummy'') \<or> (labelB = ''car'' \<and> labelA = ''dummy'')
      then finishSimulation True (s\<lparr>hasCrashed := True\<rparr>)
      else collisionPairs pairs s)"

definition handleCollision :: "(string \<times> string) list \<Rightarrow> sim \<Rightarrow> sim" where
  "handleCollision pairs s = (if hasCrashed s then s else collisionPairs pairs s)"

text \<open>The three selection listeners: ignored while running, otherwise a reset.\<close>

definition selectSpeed :: "speed_key \<Rightarrow> sim \<Rightarrow> sim" where
  "selectSpeed k s = (if isRunning s then s else resetWorld (s\<lparr>currentSpeed := k\<rparr>))"

definition selectWeather :: "weather \<Rightarrow> sim \<Rightarrow> sim" where
  "selectWeather w s = (if isRunning s then s else resetWorld (s\<lparr>currentWeather := w\<rparr>))"

definition selectDistance :: "rat \<Rightarrow> sim \<Rightarrow> sim" where
  "selectDistance d s =
     (if isRunning s then s else resetWorld (s\<lparr>currentObstacleDistance := d\<rparr>))"

subsection \<open>Events\<close>

text \<open>
  What can happen to the page: the engine's two callbacks, the clicks, and the
  engine's own step, which moves the car to a position and velocity of its
  choosing and clears the accumulated force.
\<close>

datatype event =
    BeforeUpdate
  | CollisionStart "(string \<times> string) list"
  | ClickStart
  | ClickReset
  | ClickSpeed speed_key
  | ClickWeather weather
  | ClickDistance rat
  | EngineStep rat rat rat

definition engineStep :: "rat \<Rightarrow> rat \<Rightarrow> rat \<Rightarrow> sim \<Rightarrow> sim" where
  "engineStep x vx vy s =
     s\<lparr>carBody := (carBody s)\<lparr>position_x := x, velocity_x := vx, velocity_y := vy, force_x := 0\<rparr>\<rparr>"

fun step :: "event \<Rightarrow> sim \<Rightarrow> sim" where
  "step BeforeUpdate s = handleUpdate s"
| "step (CollisionStart pairs) s = handleCollision pairs s"
| "step ClickStart s = startSimulation s"
| "step ClickReset s = resetWorld s"
| "step (ClickSpeed k) s = selectSpeed k s"
| "step (ClickWeather w) s = selectWeather w s"
| "step (ClickDistance d) s = selectDistance d s"
| "step (EngineStep x vx vy) s = engineStep x vx vy s"

fun run :: "event list \<Rightarrow> sim \<Rightarrow> sim" where
  "run [] s = s"
| "run (e # es) s = run es (step e s)"

text \<open>
  The state once the script has loaded: the initial values of the variables,
  then \<^verbatim>\<open>init\<close>, which builds the world with \<^verbatim>\<open>resetWorld\<close>. The width of the
  canvas is the one value taken from the page.
\<close>

definition init :: "rat \<Rightarrow> sim" where
  "init width =
     resetWorld
       \<lparr>currentObstacleDistance = 400, currentSpeed = kmh30, currentWeather = sunny,
        lowSpeedCounter = 0, hasCrashed = False, hasFinished = False, isRunning = False,
        brakingStarted = False, carBody = newCar, groundFriction = FRICTION_MAP sunny,
        obstacleX = BRAKE_LINE_X + 400, renderWidth = width, viewMinX = 0, viewMaxX = width,
        start_btn_disabled = False, result_overlay = None, history_body = []\<rparr>"

subsection \<open>Notions used to state the properties\<close>

text \<open>
  The state that the stop check of \<^verbatim>\<open>handleUpdate\<close> sees: the first three parts
  have run.
\<close>

definition beforeStopCheck :: "sim \<Rightarrow> sim" where
  "beforeStopCheck s = driveOrBrake (checkBrakeLine (followCamera s))"

text \<open>
  A reported pair is the vehicle and the obstacle, in either order; a crash
  notification is a collision callback that reports such a pair.
\<close>

definition vehicle_obstacle_pair :: "string \<times> string \<Rightarrow> bool" where
  "vehicle_obstacle_pair p = (p = (''car'', ''dummy'') \<or> p = (''dummy'', ''car''))"

fun crash_notification :: "event \<Rightarrow> bool" where
  "crash_notification (CollisionStart pairs) = list_ex vehicle_obstacle_pair pairs"
| "crash_notification _ = False"

text \<open>
  A sequence of ticks as the script observes them: the engine leaves the car at
  some position and velocity, then the update callback runs.
\<close>

definition observed_ticks :: "(rat \<times> rat \<times> rat) list \<Rightarrow> event list" where
  "observed_ticks qs = concat (map (\<lambda>(x, vx, vy). [EngineStep x vx vy, BeforeUpdate]) qs)"

text \<open>The number a distance text denotes is not negative.\<close>

fun distance_nonneg :: "distance_text \<Rightarrow> bool" where
  "distance_nonneg (Tenths n) = (0 \<le> n)"
| "distance_nonneg (NumberString x) = (0 \<le> x)"

text \<open>The clicks that select a speed, a weather or an obstacle distance.\<close>

fun selection :: "event \<Rightarrow> bool" where
  "selection (ClickSpeed k) = True"
| "selection (ClickWeather w) = True"
| "selection (ClickDistance d) = True"
| "selection _ = False"

text \<open>The events that begin a run or rebuild the world: the clicks.\<close>

fun restarts :: "event \<Rightarrow> bool" where
  "restarts BeforeUpdate = False"
| "restarts (CollisionStart pairs) = False"
| "restarts (EngineStep x vx vy) = False"
| "restarts _ = True"

section \<open>Properties\<close>

lemmas prims = setVelocity_def applyForce_def lookAt_def addToHistory_def showResult_def

lemmas clicks = startSimulation_def resetWorld_def selectSpeed_def selectWeather_def
  selectDistance_def engineStep_def

subsection \<open>Traces\<close>

lemma run_append: "run (es @ fs) s = run fs (run es s)"
  by (induction es arbitrary: s) simp_all

lemma run_snoc: "run (es @ [e]) s = step e (run es s)"
  by (simp add: run_append)

lemma run_invariant:
  assumes "P s" and "\<And>e t. P t \<Longrightarrow> P (step e t)"
  shows "P (run es s)"
  using assms(1) by (induction es arbitrary: s) (simp_all add: assms(2))

subsection \<open>Binary64 rounding\<close>

lemma bitlen_powi:
  assumes "0 < a"
  shows "2 powi (bitlen a - 1) \<le> (of_int a :: rat)" and "(of_int a :: rat) < 2 powi bitlen a"
proof -
  from assms have l: "1 \<le> bitlen a"
    using bitlen_eq_zero_iff [of a] bitlen_nonneg [of a] by linarith
  from bitlen_bounds [OF assms] have lo: "2 ^ nat (bitlen a - 1) \<le> a" and hi: "a < 2 ^ nat (bitlen a)"
    by simp_all
  from lo have "(of_int (2 ^ nat (bitlen a - 1)) :: rat) \<le> of_int a"
    by (simp only: of_int_le_iff)
  with l show "2 powi (bitlen a - 1) \<le> (of_int a :: rat)"
    by (simp add: power_int_def)
  from hi have "(of_int a :: rat) < of_int (2 ^ nat (bitlen a))"
    by (simp only: of_int_less_iff)
  with l show "(of_int a :: rat) < 2 powi bitlen a"
    by (simp add: power_int_def)
qed

lemma binade_bounds:
  assumes "0 < y"
  shows "2 powi binade y \<le> y" and "y < 2 powi (binade y + 1)"
proof -
  obtain a b where q: "quotient_of y = (a, b)" by (cases "quotient_of y")
  then have b: "0 < b" and y: "y = of_int a / of_int b"
    by (simp_all add: quotient_of_denom_pos quotient_of_div)
  from assms y b have a: "0 < a"
    by (simp add: zero_less_divide_iff)
  let ?e = "bitlen a - bitlen b"
  have B: "(0::rat) < of_int b" using b by simp
  have "y < 2 powi bitlen a / 2 powi (bitlen b - 1)"
  proof -
    have "y < 2 powi bitlen a / of_int b"
      unfolding y using bitlen_powi(2) [OF a] B by (simp add: divide_strict_right_mono)
    also have "\<dots> \<le> 2 powi bitlen a / 2 powi (bitlen b - 1)"
      using bitlen_powi(1) [OF b] by (simp add: frac_le)
    finally show ?thesis .
  qed
  also have "2 powi bitlen a / 2 powi (bitlen b - 1) = (2::rat) powi (bitlen a - (bitlen b - 1))"
    by (rule power_int_diff [symmetric]) simp
  also have "bitlen a - (bitlen b - 1) = ?e + 1"
    by simp
  finally have up: "y < 2 powi (?e + 1)" .
  have "2 powi (bitlen a - 1) / 2 powi bitlen b \<le> y"
  proof -
    have "(2::rat) powi (bitlen a - 1) / 2 powi bitlen b \<le> 2 powi (bitlen a - 1) / of_int b"
      using bitlen_powi(2) [OF b] B by (simp add: frac_le)
    also have "\<dots> \<le> y"
      unfolding y using bitlen_powi(1) [OF a] B by (simp add: divide_right_mono)
    finally show ?thesis .
  qed
  moreover have "2 powi (bitlen a - 1) / 2 powi bitlen b = (2::rat) powi (bitlen a - 1 - bitlen b)"
    by (rule power_int_diff [symmetric]) simp
  moreover have "bitlen a - 1 - bitlen b = ?e - 1"
    by simp
  ultimately have lo: "2 powi (?e - 1) \<le> y"
    by simp
  show "2 powi binade y \<le> y"
    using lo by (simp add: binade_def q Let_def)
  show "y < 2 powi (binade y + 1)"
    using up by (auto simp add: binade_def q Let_def not_le)
qed

lemma roundHalfEven_near: "\<bar>of_int (roundHalfEven z) - z\<bar> \<le> 1 / 2"
proof -
  have "of_int \<lfloor>z\<rfloor> \<le> z" and "z < of_int \<lfloor>z\<rfloor> + 1"
    by linarith+
  then show ?thesis
    unfolding roundHalfEven_def Let_def by (auto simp: abs_le_iff)
qed

lemma roundHalfEven_of_int: "roundHalfEven (of_int k) = k"
  by (simp add: roundHalfEven_def)

lemma roundHalfEven_nonneg: "0 \<le> z \<Longrightarrow> 0 \<le> roundHalfEven z"
  unfolding roundHalfEven_def Let_def by (auto simp: zero_le_floor)

lemma quantum_pos: "0 < quantum y"
  by (simp add: quantum_def)

lemma quantum_le:
  assumes "0 < y"
  shows "quantum y \<le> y / 2 ^ 52 + 1 / 2 ^ 1074"
proof (cases "- 1022 \<le> binade y")
  case True
  then have "quantum y = 2 powi (binade y - 52)"
    by (simp add: quantum_def max_def)
  also have "\<dots> = 2 powi binade y / 2 powi 52"
    by (rule power_int_diff) simp
  also have "\<dots> \<le> y / 2 powi 52"
    using binade_bounds(1) [OF assms] by (simp add: divide_right_mono)
  also have "\<dots> = y / 2 ^ 52"
    by (simp add: power_int_def)
  finally show ?thesis
    by simp
next
  case False
  then have "quantum y = 2 powi (- 1074)"
    by (simp add: quantum_def max_def)
  also have "\<dots> = 1 / 2 ^ 1074"
    by (simp add: power_int_def inverse_eq_divide power_one_over)
  finally show ?thesis
    using assms by simp
qed

lemma roundDouble_pos_near:
  assumes "0 < y"
  shows "\<bar>roundDouble y - y\<bar> \<le> quantum y / 2"
proof -
  let ?q = "quantum y"
  have q: "0 < ?q" by (rule quantum_pos)
  have "\<bar>of_int (roundHalfEven (y / ?q)) - y / ?q\<bar> * ?q \<le> 1 / 2 * ?q"
    using roundHalfEven_near [of "y / ?q"] q by (simp only: mult_right_mono less_imp_le)
  moreover have "\<bar>of_int (roundHalfEven (y / ?q)) - y / ?q\<bar> * ?q
      = \<bar>of_int (roundHalfEven (y / ?q)) * ?q - y\<bar>"
  proof -
    have "(of_int (roundHalfEven (y / ?q)) - y / ?q) * ?q
        = of_int (roundHalfEven (y / ?q)) * ?q - y"
      using q by (simp add: field_simps)
    then have "\<bar>of_int (roundHalfEven (y / ?q)) * ?q - y\<bar>
        = \<bar>of_int (roundHalfEven (y / ?q)) - y / ?q\<bar> * \<bar>?q\<bar>"
      by (simp only: abs_mult [symmetric])
    with q show ?thesis
      by simp
  qed
  ultimately show ?thesis
    using assms by (simp add: roundDouble_def)
qed

lemma roundDouble_minus: "roundDouble (- y) = - roundDouble y"
  by (simp add: roundDouble_def)

lemma roundDouble_nonneg: "0 \<le> y \<Longrightarrow> 0 \<le> roundDouble y"
  using quantum_pos [of y]
  by (auto simp add: roundDouble_def roundHalfEven_nonneg less_imp_le)

lemma roundDouble_nonpos: "y \<le> 0 \<Longrightarrow> roundDouble y \<le> 0"
  using roundDouble_nonneg [of "- y"] by (simp add: roundDouble_minus)

lemma roundDouble_error:
  "\<bar>roundDouble y - y\<bar> \<le> \<bar>y\<bar> / 2 ^ 53 + 1 / 2 ^ 1075"
proof -
  have pos: "\<bar>roundDouble z - z\<bar> \<le> z / 2 ^ 53 + 1 / 2 ^ 1075" if "0 < z" for z
    using roundDouble_pos_near [OF that] quantum_le [OF that] by simp
  consider "0 < y" | "y = 0" | "y < 0" by linarith
  then show ?thesis
  proof cases
    case 1
    with pos [of y] show ?thesis by simp
  next
    case 2
    then show ?thesis by (simp add: roundDouble_def)
  next
    case 3
    with pos [of "- y"] show ?thesis by (simp add: roundDouble_minus)
  qed
qed

lemma powi_less_imp: "(2::rat) powi m < 2 powi n \<Longrightarrow> m < n"
proof (rule ccontr)
  assume a: "(2::rat) powi m < 2 powi n" and "\<not> m < n"
  then have "n \<le> m" by simp
  then have "(2::rat) powi n \<le> 2 powi m"
    by (rule power_int_increasing) simp
  with a show False by simp
qed

lemma binade_eq:
  assumes "0 < y" and "2 powi e \<le> y" and "y < 2 powi (e + 1)"
  shows "binade y = e"
proof -
  from binade_bounds [OF assms(1)] assms(2,3)
  have "(2::rat) powi binade y < 2 powi (e + 1)" and "(2::rat) powi e < 2 powi (binade y + 1)"
    by linarith+
  then have "binade y < e + 1" and "e < binade y + 1"
    by (blast dest: powi_less_imp)+
  then show ?thesis by simp
qed

lemma binade_less:
  assumes "0 < y" and "y < 2 powi e"
  shows "binade y < e"
proof -
  from binade_bounds(1) [OF assms(1)] assms(2) have "(2::rat) powi binade y < 2 powi e"
    by linarith
  then show ?thesis by (rule powi_less_imp)
qed

lemma binade_ge:
  assumes "2 powi e \<le> y"
  shows "e \<le> binade y"
proof -
  have "0 < y"
    using assms zero_less_power_int [of "2::rat" e] by linarith
  from binade_bounds(2) [OF this] assms have "(2::rat) powi e < 2 powi (binade y + 1)"
    by linarith
  then have "e < binade y + 1" by (rule powi_less_imp)
  then show ?thesis by simp
qed

lemma powi_Ints: "0 \<le> k \<Longrightarrow> (2::rat) powi k \<in> \<int>"
  by (simp add: power_int_def)

lemma roundDouble_grid:
  assumes "0 < y"
  shows "roundDouble y / quantum y \<in> \<int>"
  using assms quantum_pos [of y] by (simp add: roundDouble_def)

lemma roundDouble_exact:
  assumes "0 < y" and "y / quantum y \<in> \<int>"
  shows "roundDouble y = y"
proof -
  from assms(2) obtain k where k: "y / quantum y = of_int k"
    by (rule Ints_cases)
  then have "roundHalfEven (y / quantum y) = k"
    by (simp add: roundHalfEven_of_int)
  with assms(1) k quantum_pos [of y] show ?thesis
    by (simp add: roundDouble_def field_simps)
qed

lemma powi_quotient: "(2::rat) powi a / 2 powi b = 2 powi (a - b)"
  by (rule power_int_diff [symmetric]) simp

lemma roundDouble_sub_exact:
  assumes dbl: "roundDouble x = x" and lo: "150 \<le> x" and hi: "x < 2 ^ 52"
  shows "roundDouble (x - 150) = x - 150"
proof (cases "x = 150")
  case True
  then show ?thesis by (simp add: roundDouble_def)
next
  case False
  with lo have y: "0 < x - 150" and x: "0 < x" by simp_all
  have "(2::rat) powi 7 \<le> x" using lo by simp
  then have e7: "7 \<le> binade x" by (rule binade_ge)
  have "x < 2 powi 52" using hi by simp
  with x have e52: "binade x < 52" by (rule binade_less)
  have gx: "quantum x = 2 powi (binade x - 52)"
    using e7 by (simp add: quantum_def max_def)
  have "x / quantum x \<in> \<int>"
    using roundDouble_grid [OF x] dbl by simp
  moreover have "150 / quantum x \<in> \<int>"
  proof -
    have "150 / quantum x = 150 * (2 powi 0 / 2 powi (binade x - 52))"
      by (simp add: gx)
    also have "\<dots> = 150 * 2 powi (0 - (binade x - 52))"
      by (simp only: powi_quotient)
    finally show ?thesis
      using e52 by (simp add: powi_Ints)
  qed
  ultimately have "x / quantum x - 150 / quantum x \<in> \<int>"
    by (rule Ints_diff)
  then have 1: "(x - 150) / quantum x \<in> \<int>"
    by (simp add: diff_divide_distrib)
  have "x - 150 < 2 powi (binade x + 1)"
    using binade_bounds(2) [OF x] by simp
  with y have "binade (x - 150) < binade x + 1" by (rule binade_less)
  with e7 have "0 \<le> binade x - 52 - (max (binade (x - 150)) (- 1022) - 52)"
    by simp
  then have "(2::rat) powi (binade x - 52 - (max (binade (x - 150)) (- 1022) - 52)) \<in> \<int>"
    by (rule powi_Ints)
  moreover have "quantum x / quantum (x - 150)
      = 2 powi (binade x - 52 - (max (binade (x - 150)) (- 1022) - 52))"
    unfolding gx by (simp only: quantum_def [of "x - 150"] powi_quotient)
  ultimately have 2: "quantum x / quantum (x - 150) \<in> \<int>"
    by simp
  have eq: "(x - 150) / quantum (x - 150)
      = (x - 150) / quantum x * (quantum x / quantum (x - 150))"
    using quantum_pos [of x] by simp
  have "(x - 150) / quantum x * (quantum x / quantum (x - 150)) \<in> \<int>"
    using 1 2 by (rule Ints_mult)
  then have "(x - 150) / quantum (x - 150) \<in> \<int>"
    by (simp only: eq)
  with y show ?thesis by (rule roundDouble_exact)
qed

lemma tenth_of_double:
  assumes dbl: "roundDouble p = p" and p0: "0 \<le> p" and hi: "p < 2 ^ 52"
  shows "\<bar>of_int (round (10 * roundDouble (p / 10))) - p\<bar> \<le> 1 / 2"
proof (cases "p < 1 / 4")
  case True
  let ?Q = "roundDouble (p / 10)"
  have Q0: "0 \<le> ?Q" using p0 by (simp add: roundDouble_nonneg)
  have "\<bar>?Q - p / 10\<bar> \<le> \<bar>p / 10\<bar> / 2 ^ 53 + 1 / 2 ^ 1075"
    by (rule roundDouble_error)
  with p0 True have "10 * ?Q + 1 / 2 < 1"
    by simp
  with Q0 have "\<lfloor>10 * ?Q + 1 / 2\<rfloor> = 0"
    by (simp add: floor_eq_iff)
  with p0 True show ?thesis
    by (simp add: round_def)
next
  case False
  then have p: "0 < p" and q: "0 < p / 10" by simp_all
  let ?e = "binade p"
  let ?g = "quantum p"
  let ?Q = "roundDouble (p / 10)"
  let ?n = "round (10 * ?Q)"
  have "(2::rat) powi (- 2) \<le> p" using False by (simp add: power_int_minus)
  then have e2: "- 2 \<le> ?e" by (rule binade_ge)
  have "p < 2 powi 52" using hi by simp
  with p have e52: "?e < 52" by (rule binade_less)
  have g: "?g = 2 powi (?e - 52)"
    using e2 by (simp add: quantum_def max_def)
  have gpos: "0 < ?g" by (rule quantum_pos)
  have pg: "p / ?g \<in> \<int>"
    using roundDouble_grid [OF p] dbl by simp
  have one: "1 / ?g \<in> \<int>" and half: "(1 / 2) / ?g \<in> \<int>"
  proof -
    have "1 / ?g = 2 powi 0 / 2 powi (?e - 52)" by (simp add: g)
    also have "\<dots> = 2 powi (0 - (?e - 52))" by (simp only: powi_quotient)
    finally show "1 / ?g \<in> \<int>" using e52 by (simp add: powi_Ints)
    have "(1 / 2) / ?g = 2 powi (- 1) / 2 powi (?e - 52)" by (simp add: g power_int_minus)
    also have "\<dots> = 2 powi (- 1 - (?e - 52))" by (simp only: powi_quotient)
    finally show "(1 / 2) / ?g \<in> \<int>" using e52 by (simp add: powi_Ints)
  qed
  have gap: "?g \<le> \<bar>of_int k + h - p\<bar>" if "h = 1 / 2 \<or> h = - (1 / 2)" "of_int k + h \<noteq> p"
    for k :: int and h :: rat
  proof -
    have "of_int k * (1 / ?g) \<in> \<int>"
      using one by (intro Ints_mult) simp_all
    then have "of_int k / ?g \<in> \<int>" by simp
    moreover have "h / ?g \<in> \<int>"
    proof -
      from half have "- ((1 / 2) / ?g) \<in> \<int>"
        by (rule Ints_minus)
      then have "(- (1 / 2)) / ?g \<in> \<int>"
        by (simp only: minus_divide_left)
      with half that(1) show ?thesis
        by blast
    qed
    ultimately have "of_int k / ?g + h / ?g - p / ?g \<in> \<int>"
      using pg by simp
    then have "(of_int k + h - p) / ?g \<in> \<int>"
      by (simp add: diff_divide_distrib add_divide_distrib)
    moreover have "(of_int k + h - p) / ?g \<noteq> 0"
      using that(2) gpos by simp
    ultimately have "1 \<le> \<bar>(of_int k + h - p) / ?g\<bar>"
      by (rule Ints_nonzero_abs_ge1)
    then show ?thesis
      using gpos by (simp add: abs_divide pos_le_divide_eq abs_of_pos)
  qed
  have "p / 10 < 2 powi (?e - 2)"
  proof -
    have "(2::rat) powi (?e - 2 + 3) = 2 powi (?e - 2) * 2 powi 3"
      by (rule power_int_add) simp
    moreover have "?e - 2 + 3 = ?e + 1"
      by simp
    ultimately have "(2::rat) powi (?e + 1) = 2 powi (?e - 2) * 8"
      by simp
    with binade_bounds(2) [OF p] have "p < 8 * 2 powi (?e - 2)"
      by simp
    moreover have "(0::rat) < 2 powi (?e - 2)" by simp
    ultimately show ?thesis by linarith
  qed
  with q have "binade (p / 10) < ?e - 2" by (rule binade_less)
  with e2 have "max (binade (p / 10)) (- 1022) - 52 \<le> ?e - 52 - 3"
    by simp
  then have "quantum (p / 10) \<le> 2 powi (?e - 52 - 3)"
    unfolding quantum_def by (rule power_int_increasing) simp
  also have "\<dots> = ?g / 2 powi 3"
    by (simp only: g powi_quotient)
  finally have "quantum (p / 10) \<le> ?g / 8"
    by simp
  with roundDouble_pos_near [OF q] have "\<bar>?Q - p / 10\<bar> \<le> ?g / 16"
    by simp
  then have close: "\<bar>10 * ?Q - p\<bar> < ?g"
    using gpos by linarith
  have fl: "of_int ?n \<le> 10 * ?Q + 1 / 2" "10 * ?Q + 1 / 2 < of_int ?n + 1"
    unfolding round_def by linarith+
  have "p \<le> of_int ?n + 1 / 2"
  proof (rule ccontr)
    assume "\<not> p \<le> of_int ?n + 1 / 2"
    then have "of_int ?n + 1 / 2 \<noteq> p" and "of_int ?n + 1 / 2 < p" by simp_all
    with gap [of "1 / 2" ?n] fl close show False
      by linarith
  qed
  moreover have "of_int ?n - 1 / 2 \<le> p"
  proof (rule ccontr)
    assume "\<not> of_int ?n - 1 / 2 \<le> p"
    then have "of_int ?n + - (1 / 2) \<noteq> p" and "p < of_int ?n + - (1 / 2)" by simp_all
    with gap [of "- (1 / 2)" ?n] fl close show False
      by linarith
  qed
  ultimately show ?thesis
    by linarith
qed

subsection \<open>What the handlers write\<close>

lemma toFixed1_round: "0 \<le> x \<Longrightarrow> x < 10 ^ 21 \<Longrightarrow> toFixed1 x = Tenths (round (x * 10))"
  by (simp add: toFixed1_def round_def)

lemma toFixed1_nonneg: "0 \<le> x \<Longrightarrow> distance_nonneg (toFixed1 x)"
  by (simp add: toFixed1_def)

text \<open>
  The text for some distances in pixels: 53.5 and 1.5 give quotients that lie
  just below 5.35 and 0.15 as doubles and are printed as 5.3 and 0.1; 4.5
  gives a quotient just above 0.45, printed as 0.5; 2.5 gives 0.25 exactly,
  a true tie, printed as 0.3.
\<close>

lemma toFixed1_examples:
  "toFixed1 (roundDouble (max 0 (roundDouble (407 / 2 - BRAKE_LINE_X)) / SCALE)) = Tenths 53"
  "toFixed1 (roundDouble (max 0 (roundDouble (303 / 2 - BRAKE_LINE_X)) / SCALE)) = Tenths 1"
  "toFixed1 (roundDouble (max 0 (roundDouble (309 / 2 - BRAKE_LINE_X)) / SCALE)) = Tenths 5"
  "toFixed1 (roundDouble (max 0 (roundDouble (305 / 2 - BRAKE_LINE_X)) / SCALE)) = Tenths 3"
  "toFixed1 (roundDouble (max 0 (roundDouble (100 - BRAKE_LINE_X)) / SCALE)) = Tenths 0"
  "toFixed1 (10 ^ 21) = NumberString (10 ^ 21)"
  by code_simp+

lemma recorded_nonneg:
  "distance_nonneg (toFixed1 (roundDouble (max 0 (roundDouble y) / SCALE)))"
  by (simp add: toFixed1_nonneg roundDouble_nonneg SCALE_def)

lemma finishSimulation_history:
  "history_body (finishSimulation c s) =
     (if hasFinished s then history_body s
      else \<lparr>row_speed = currentSpeed s, row_weather = currentWeather s,
            row_distance =
              toFixed1
                (roundDouble
                   (max 0 (roundDouble (position_x (carBody s) - BRAKE_LINE_X)) / SCALE)),
            row_crashed = c\<rparr> # history_body s)"
  by (simp add: finishSimulation_def prims Let_def)

lemma finishSimulation_fields:
  "hasCrashed (finishSimulation False s) = hasCrashed s"
  "start_btn_disabled (finishSimulation c s) = start_btn_disabled s"
  "carBody (finishSimulation c s) = carBody s"
  "lowSpeedCounter (finishSimulation c s) = lowSpeedCounter s"
  "brakingStarted (finishSimulation c s) = brakingStarted s"
  by (simp_all add: finishSimulation_def prims Let_def)

lemma finishSimulation_flags:
  "hasFinished (finishSimulation c s)"
  "isRunning (finishSimulation c s) = (isRunning s \<and> hasFinished s)"
  by (simp_all add: finishSimulation_def prims Let_def)

lemma collisionPairs_cases:
  "collisionPairs pairs s = s
   \<or> collisionPairs pairs s = finishSimulation True (s\<lparr>hasCrashed := True\<rparr>)"
  by (induction pairs s rule: collisionPairs.induct) auto

lemma collisionPairs_hit:
  "list_ex vehicle_obstacle_pair pairs \<Longrightarrow>
   collisionPairs pairs s = finishSimulation True (s\<lparr>hasCrashed := True\<rparr>)"
  by (induction pairs s rule: collisionPairs.induct) (auto simp: vehicle_obstacle_pair_def)

lemma collisionPairs_miss:
  "\<not> list_ex vehicle_obstacle_pair pairs \<Longrightarrow> collisionPairs pairs s = s"
  by (induction pairs s rule: collisionPairs.induct) (auto simp: vehicle_obstacle_pair_def)

lemma beforeStopCheck_fields:
  "hasFinished (beforeStopCheck s) = hasFinished s"
  "hasCrashed (beforeStopCheck s) = hasCrashed s"
  "isRunning (beforeStopCheck s) = isRunning s"
  "lowSpeedCounter (beforeStopCheck s) = lowSpeedCounter s"
  "history_body (beforeStopCheck s) = history_body s"
  "result_overlay (beforeStopCheck s) = result_overlay s"
  "start_btn_disabled (beforeStopCheck s) = start_btn_disabled s"
  "currentSpeed (beforeStopCheck s) = currentSpeed s"
  "currentWeather (beforeStopCheck s) = currentWeather s"
  "position_x (carBody (beforeStopCheck s)) = position_x (carBody s)"
  "mass (carBody (beforeStopCheck s)) = mass (carBody s)"
  "brakingStarted (beforeStopCheck s)
     = (brakingStarted s \<or> BRAKE_LINE_X \<le> position_x (carBody s))"
  by (simp_all add: beforeStopCheck_def driveOrBrake_def checkBrakeLine_def followCamera_def
      prims Let_def)

lemma beforeStopCheck_velocity:
  "brakingStarted s \<or> BRAKE_LINE_X \<le> position_x (carBody s) \<Longrightarrow>
   velocity_x (carBody (beforeStopCheck s)) = velocity_x (carBody s)"
  by (auto simp add: beforeStopCheck_def driveOrBrake_def checkBrakeLine_def followCamera_def
      prims Let_def)

lemma beforeStopCheck_force:
  "brakingStarted s \<or> BRAKE_LINE_X \<le> position_x (carBody s) \<Longrightarrow>
   force_x (carBody (beforeStopCheck s)) =
     force_x (carBody s) +
       (if velocity_x (carBody s) > 5 / 10
        then - velocity_x (carBody s) * BRAKING_FORCE_MAP (currentWeather s)
               * mass (carBody s) * (1 / 1000)
        else if velocity_x (carBody s) > 1 / 100
        then - velocity_x (carBody s) * BRAKING_FORCE_MAP (currentWeather s)
               * mass (carBody s) * (1 / 100)
        else 0)"
  by (auto simp add: beforeStopCheck_def driveOrBrake_def checkBrakeLine_def followCamera_def
      prims Let_def)

lemma handleUpdate_alt:
  "handleUpdate s = (if \<not> isRunning s then s else checkStopped (beforeStopCheck s))"
  by (simp add: handleUpdate_def beforeStopCheck_def)

lemma checkStopped_eq:
  "checkStopped t =
    (if brakingStarted t \<and> \<not> hasCrashed t \<and> \<not> hasFinished t then
       (if \<bar>velocity_x (carBody t)\<bar> < 3 / 10 then
          (if 30 \<le> lowSpeedCounter t \<or> \<bar>velocity_x (carBody t)\<bar> < 5 / 100
           then finishSimulation False
                  (setVelocity 0 0 (t\<lparr>lowSpeedCounter := lowSpeedCounter t + 1\<rparr>))
           else t\<lparr>lowSpeedCounter := lowSpeedCounter t + 1\<rparr>)
        else t\<lparr>lowSpeedCounter := 0\<rparr>)
     else t)"
  by (auto simp add: checkStopped_def Let_def)

lemma checkStopped_cases:
  "checkStopped t = t \<or> checkStopped t = t\<lparr>lowSpeedCounter := 0\<rparr>
   \<or> checkStopped t = t\<lparr>lowSpeedCounter := lowSpeedCounter t + 1\<rparr>
   \<or> (\<not> hasFinished t
       \<and> checkStopped t = finishSimulation False
            (setVelocity 0 0 (t\<lparr>lowSpeedCounter := lowSpeedCounter t + 1\<rparr>)))"
  by (simp add: checkStopped_def Let_def)

lemma checkStopped_hasCrashed: "hasCrashed (checkStopped t) = hasCrashed t"
  using checkStopped_cases [of t]
  by (auto simp: finishSimulation_fields prims)

lemma checkStopped_button: "start_btn_disabled (checkStopped t) = start_btn_disabled t"
  using checkStopped_cases [of t]
  by (auto simp: finishSimulation_fields prims)

lemma checkStopped_force: "force_x (carBody (checkStopped t)) = force_x (carBody t)"
  using checkStopped_cases [of t]
  by (auto simp: finishSimulation_fields prims)

lemma checkStopped_running:
  "isRunning (checkStopped t) \<Longrightarrow>
   isRunning t \<and> hasFinished (checkStopped t) = hasFinished t"
  using checkStopped_cases [of t]
  by (auto simp: finishSimulation_flags prims)

lemma checkStopped_reports:
  "filter row_crashed (history_body (checkStopped t)) = filter row_crashed (history_body t)"
  "result_overlay (checkStopped t) = Some (d, True) \<Longrightarrow> result_overlay t = Some (d, True)"
  using checkStopped_cases [of t]
  by (auto simp: finishSimulation_def prims Let_def)

lemma engineStep_fields:
  "isRunning (engineStep x vx vy s) = isRunning s"
  "hasFinished (engineStep x vx vy s) = hasFinished s"
  "hasCrashed (engineStep x vx vy s) = hasCrashed s"
  "brakingStarted (engineStep x vx vy s) = brakingStarted s"
  "lowSpeedCounter (engineStep x vx vy s) = lowSpeedCounter s"
  "velocity_x (carBody (engineStep x vx vy s)) = vx"
  by (simp_all add: engineStep_def)

subsection \<open>Reset\<close>

text \<open>
  C2, as the code has it. \<^verbatim>\<open>resetWorld\<close> clears the four flags: braking not
  started, not running, not crashed, not finished. It does not write the
  low-speed counter, which keeps its value through a reset; the counter is set
  to 0 by \<^verbatim>\<open>startSimulation\<close>, so it is 0 when the next run begins.
\<close>

theorem resetWorld_flags:
  "\<not> brakingStarted (resetWorld s) \<and> \<not> isRunning (resetWorld s)
   \<and> \<not> hasCrashed (resetWorld s) \<and> \<not> hasFinished (resetWorld s)
   \<and> lowSpeedCounter (resetWorld s) = lowSpeedCounter s
   \<and> lowSpeedCounter (startSimulation (resetWorld s)) = 0"
  by (simp add: resetWorld_def startSimulation_def prims Let_def)

text \<open>
  C2 as stated fails: after a run that stop detection ended with the counter
  at 1, a reset leaves the counter at 1.
\<close>

theorem resetWorld_keeps_counter:
  "lowSpeedCounter
     (resetWorld (run [ClickStart, EngineStep 200 (4 / 100) 0, BeforeUpdate] (init 1000))) = 1"
  by code_simp

subsection \<open>Finalization\<close>

lemma step_rows_nonneg:
  "list_all (\<lambda>r. distance_nonneg (row_distance r)) (history_body s) \<Longrightarrow>
   list_all (\<lambda>r. distance_nonneg (row_distance r)) (history_body (step e s))"
proof (cases e)
  case BeforeUpdate
  assume "list_all (\<lambda>r. distance_nonneg (row_distance r)) (history_body s)"
  with BeforeUpdate checkStopped_cases [of "beforeStopCheck s"] show ?thesis
    by (auto simp: handleUpdate_alt beforeStopCheck_fields finishSimulation_history prims
        recorded_nonneg)
next
  case (CollisionStart pairs)
  assume "list_all (\<lambda>r. distance_nonneg (row_distance r)) (history_body s)"
  with CollisionStart collisionPairs_cases [of pairs s] show ?thesis
    by (auto simp: handleCollision_def finishSimulation_history recorded_nonneg)
qed (auto simp: clicks prims Let_def)

text \<open>
  C5. When a run is finalized, the row added to the history (and the overlay)
  carries \<open>max 0 (position - brake line)\<close> divided by the scale factor 10 and
  rounded to one decimal place. The script evaluates the quotient in binary64:
  with \<open>Q\<close> the quotient so evaluated (below \<open>10\<^sup>2\<^sup>1\<close>, where the text has one
  decimal place) and \<open>q\<close> the exact quotient, the recorded number of tenths is
  the nearest integer to \<open>10 * Q\<close>, so the text is within 0.05 of \<open>Q\<close>, and \<open>Q\<close>
  differs from \<open>q\<close> by the binary rounding of the two operations only. When
  the position is itself a double below \<open>2\<^sup>5\<^sup>2\<close>, as the engine's positions
  are, the text is within 0.05 of the exact quotient \<open>q\<close> as well: it is \<open>q\<close>
  rounded to one decimal place, and where \<open>q\<close> lies exactly between two texts
  the binary quotient decides (203.5 is recorded as 5.3). Every row recorded
  in any sequence of events from the loaded page has a non-negative distance.
\<close>

theorem recorded_distance:
  "(\<not> hasFinished s
      \<and> q = max 0 (position_x (carBody s) - BRAKE_LINE_X) / 10
      \<and> Q = roundDouble (max 0 (roundDouble (position_x (carBody s) - BRAKE_LINE_X)) / 10)
      \<and> Q < 10 ^ 21 \<longrightarrow>
      (\<exists>d. history_body (finishSimulation c s) =
             \<lparr>row_speed = currentSpeed s, row_weather = currentWeather s,
              row_distance = Tenths d, row_crashed = c\<rparr> # history_body s
           \<and> result_overlay (finishSimulation c s) = Some (Tenths d, c)
           \<and> d = round (10 * Q)
           \<and> \<bar>of_int d / 10 - Q\<bar> \<le> 1 / 20
           \<and> \<bar>Q - q\<bar> \<le> q / 2 ^ 51 + 1 / 2 ^ 1074
           \<and> (roundDouble (position_x (carBody s)) = position_x (carBody s)
                \<and> position_x (carBody s) < 2 ^ 52 \<longrightarrow>
                \<bar>of_int d / 10 - q\<bar> \<le> 1 / 20)
           \<and> 0 \<le> d))
   \<and> SCALE = 10
   \<and> list_all (\<lambda>r. distance_nonneg (row_distance r)) (history_body (run es (init w)))"
proof -
  define X where "X = position_x (carBody s) - BRAKE_LINE_X"
  define P where "P = max 0 X"
  define P' where "P' = max 0 (roundDouble X)"
  define Q' where "Q' = roundDouble (P' / 10)"
  define u :: rat where "u = 1 / 2 ^ 53"
  define h :: rat where "h = 1 / 2 ^ 1075"
  have u: "0 \<le> u" "u \<le> 1" and h: "0 \<le> h"
    by (simp_all add: u_def h_def)
  have P: "0 \<le> P" and P': "0 \<le> P'"
    by (simp_all add: P_def P'_def)
  have Q'0: "0 \<le> Q'"
    using P' by (simp add: Q'_def roundDouble_nonneg)
  have "\<bar>roundDouble X - X\<bar> \<le> u * \<bar>X\<bar> + h"
    using roundDouble_error [of X] by (simp add: u_def h_def)
  moreover have "0 \<le> X \<Longrightarrow> 0 \<le> roundDouble X" and "X \<le> 0 \<Longrightarrow> roundDouble X \<le> 0"
    by (simp_all add: roundDouble_nonneg roundDouble_nonpos)
  ultimately have A: "\<bar>P' - P\<bar> \<le> u * P + h"
    using h by (cases "0 \<le> X") (simp_all add: P_def P'_def max_def)
  have "\<bar>Q' - P' / 10\<bar> \<le> u * \<bar>P' / 10\<bar> + h"
    using roundDouble_error [of "P' / 10"] by (simp add: Q'_def u_def h_def)
  with P' have B: "\<bar>Q' - P' / 10\<bar> \<le> (u * P') / 10 + h"
    by simp
  have "0 \<le> u * P"
    using u P by simp
  have "P' \<le> P + (u * P + h)"
    using A by linarith
  then have "u * P' \<le> u * (P + (u * P + h))"
    using u(1) by (rule mult_left_mono)
  moreover have "u * (u * P + h) \<le> u * P + h"
    using u \<open>0 \<le> u * P\<close> h by (simp add: mult_left_le_one_le)
  moreover have "u * (P + (u * P + h)) = u * P + u * (u * P + h)"
    by (rule distrib_left)
  ultimately have C: "u * P' \<le> u * P + (u * P + h)"
    by linarith
  from A B C \<open>0 \<le> u * P\<close> h have "\<bar>Q' - P / 10\<bar> \<le> 4 * (u * P) / 10 + 2 * h"
    by linarith
  then have err: "\<bar>Q' - P / 10\<bar> \<le> P / 10 / 2 ^ 51 + 1 / 2 ^ 1074"
    by (simp add: u_def h_def)
  have near: "\<bar>of_int (round (10 * Q')) / 10 - Q'\<bar> \<le> 1 / 20"
    using of_int_round_abs_le [of "10 * Q'"] by (simp add: field_simps abs_le_iff)
  have exact: "\<bar>of_int (round (10 * Q')) / 10 - P / 10\<bar> \<le> 1 / 20"
    if dbl: "roundDouble (position_x (carBody s)) = position_x (carBody s)"
      and hi: "position_x (carBody s) < 2 ^ 52"
  proof (cases "150 \<le> position_x (carBody s)")
    case True
    from dbl True hi have X: "roundDouble X = X"
      unfolding X_def BRAKE_LINE_X_def by (rule roundDouble_sub_exact)
    from True have "0 \<le> X"
      by (simp add: X_def BRAKE_LINE_X_def)
    with X have PP: "P' = P" and PX: "P = X"
      by (simp_all add: P'_def P_def)
    from hi have "P < 2 ^ 52"
      using \<open>0 \<le> X\<close> by (simp add: PX X_def BRAKE_LINE_X_def)
    with X PX P have "\<bar>of_int (round (10 * roundDouble (P / 10))) - P\<bar> \<le> 1 / 2"
      by (intro tenth_of_double) simp_all
    then show ?thesis
      by (simp add: Q'_def PP abs_le_iff field_simps)
  next
    case False
    then have "X \<le> 0"
      by (simp add: X_def BRAKE_LINE_X_def)
    then have "roundDouble X \<le> 0"
      by (rule roundDouble_nonpos)
    with \<open>X \<le> 0\<close> have "P' = 0" and "P = 0"
      by (simp_all add: P'_def P_def)
    then show ?thesis
      by (simp add: Q'_def roundDouble_def)
  qed
  have pos: "0 \<le> round (10 * Q')"
    using Q'0 by (simp add: round_def)
  have rows: "list_all (\<lambda>r. distance_nonneg (row_distance r)) (history_body (run es (init w)))"
    by (rule run_invariant) (simp_all add: init_def resetWorld_def prims step_rows_nonneg)
  have fin: "history_body (finishSimulation c s) =
          \<lparr>row_speed = currentSpeed s, row_weather = currentWeather s,
           row_distance = Tenths (round (10 * Q')), row_crashed = c\<rparr> # history_body s
        \<and> result_overlay (finishSimulation c s) = Some (Tenths (round (10 * Q')), c)"
    if "\<not> hasFinished s" "Q' < 10 ^ 21"
    using that Q'0
    by (simp add: finishSimulation_def prims Let_def toFixed1_round SCALE_def
        Q'_def P'_def X_def mult.commute)
  show ?thesis
  proof (intro conjI impI)
    assume H: "\<not> hasFinished s
      \<and> q = max 0 (position_x (carBody s) - BRAKE_LINE_X) / 10
      \<and> Q = roundDouble (max 0 (roundDouble (position_x (carBody s) - BRAKE_LINE_X)) / 10)
      \<and> Q < 10 ^ 21"
    then have Q: "Q = Q'" and q: "q = P / 10"
      by (simp_all add: Q'_def P'_def P_def X_def)
    from H Q have "\<not> hasFinished s" and "Q' < 10 ^ 21"
      by simp_all
    note f = fin [OF this]
    show "\<exists>d. history_body (finishSimulation c s) =
             \<lparr>row_speed = currentSpeed s, row_weather = currentWeather s,
              row_distance = Tenths d, row_crashed = c\<rparr> # history_body s
           \<and> result_overlay (finishSimulation c s) = Some (Tenths d, c)
           \<and> d = round (10 * Q)
           \<and> \<bar>of_int d / 10 - Q\<bar> \<le> 1 / 20
           \<and> \<bar>Q - q\<bar> \<le> q / 2 ^ 51 + 1 / 2 ^ 1074
           \<and> (roundDouble (position_x (carBody s)) = position_x (carBody s)
                \<and> position_x (carBody s) < 2 ^ 52 \<longrightarrow>
                \<bar>of_int d / 10 - q\<bar> \<le> 1 / 20)
           \<and> 0 \<le> d"
      unfolding Q q using f near err pos exact by blast
  next
    show "SCALE = 10"
      by (simp add: SCALE_def)
  next
    show "list_all (\<lambda>r. distance_nonneg (row_distance r)) (history_body (run es (init w)))"
      by (rule rows)
  qed
qed

theorem recorded_distance_witness:
  "\<not> hasFinished (engineStep (407 / 2) 0 0 (init 1000))
   \<and> roundDouble (max 0 (roundDouble (407 / 2 - BRAKE_LINE_X)) / 10)
       = 3011782250804019 / 562949953421312
   \<and> roundDouble (407 / 2) = 407 / 2
   \<and> history_body (finishSimulation False (engineStep (407 / 2) 0 0 (init 1000))) =
       [\<lparr>row_speed = kmh30, row_weather = sunny, row_distance = Tenths 53,
         row_crashed = False\<rparr>]
   \<and> \<bar>53 / 10 - max 0 (407 / 2 - BRAKE_LINE_X) / 10\<bar> \<le> 1 / 20
   \<and> list_all (\<lambda>r. distance_nonneg (row_distance r))
       (history_body (run [ClickStart, EngineStep 200 (4 / 100) 0, BeforeUpdate] (init 1000)))"
proof -
  let ?s = "engineStep (407 / 2) 0 0 (init 1000)"
  let ?Q = "3011782250804019 / 562949953421312 :: rat"
  let ?q = "max 0 (407 / 2 - BRAKE_LINE_X) / 10"
  have h: "\<not> hasFinished ?s"
    by code_simp
  have v: "currentSpeed ?s = kmh30" "currentWeather ?s = sunny"
    "position_x (carBody ?s) = 407 / 2" "history_body ?s = []"
    by code_simp+
  have Q: "roundDouble (max 0 (roundDouble (407 / 2 - BRAKE_LINE_X)) / 10) = ?Q"
    by code_simp
  have r: "round (10 * ?Q) = 53" and b: "?Q < 10 ^ 21"
    and dbl: "roundDouble (407 / 2) = 407 / 2" and hi: "(407 / 2 :: rat) < 2 ^ 52"
    by code_simp+
  note inst = recorded_distance [of ?s ?q ?Q False
      "[ClickStart, EngineStep 200 (4 / 100) 0, BeforeUpdate]" 1000]
  from inst h b dbl hi obtain d where
    "history_body (finishSimulation False ?s) =
       \<lparr>row_speed = currentSpeed ?s, row_weather = currentWeather ?s,
        row_distance = Tenths d, row_crashed = False\<rparr> # history_body ?s"
    and d: "d = round (10 * ?Q)"
    and "\<bar>of_int d / 10 - ?q\<bar> \<le> 1 / 20"
    unfolding v Q by blast
  then have "history_body (finishSimulation False ?s) =
      [\<lparr>row_speed = kmh30, row_weather = sunny, row_distance = Tenths 53,
        row_crashed = False\<rparr>]"
    and "\<bar>53 / 10 - ?q\<bar> \<le> 1 / 20"
    by (simp_all only: v r of_int_numeral)
  with inst h Q dbl show ?thesis
    by blast
qed

text \<open>
  C6. A second \<^verbatim>\<open>finishSimulation\<close> with the same \<open>crashed\<close> value changes
  nothing, also when the engine has moved the car in between, and a run that
  was not finished before has exactly one more history row after both calls.
\<close>

theorem finishSimulation_twice:
  "finishSimulation c (finishSimulation c s) = finishSimulation c s
   \<and> finishSimulation c (engineStep x vx vy (finishSimulation c s))
       = engineStep x vx vy (finishSimulation c s)
   \<and> (\<not> hasFinished s \<longrightarrow>
        length (history_body (finishSimulation c (engineStep x vx vy (finishSimulation c s))))
          = Suc (length (history_body s)))"
  by (simp add: finishSimulation_def engineStep_def prims Let_def)

theorem finishSimulation_twice_witness:
  "\<not> hasFinished (init 1000)
   \<and> length (history_body
        (finishSimulation False (engineStep 7 0 0 (finishSimulation False (init 1000))))) = 1"
proof -
  have h: "\<not> hasFinished (init 1000)"
    by code_simp
  have e: "history_body (init 1000) = []"
    by code_simp
  have "length (history_body
          (finishSimulation False (engineStep 7 0 0 (finishSimulation False (init 1000)))))
        = Suc (length (history_body (init 1000)))"
    using finishSimulation_twice [of False "init 1000" 7 0 0] h by blast
  with h e show ?thesis
    by simp
qed

subsection \<open>A collision after the run was finalized as stopped\<close>

text \<open>
  What \<^verbatim>\<open>handleCollision\<close> does to a run already finalized without a crash:
  it sets \<^verbatim>\<open>hasCrashed\<close> itself before it calls \<^verbatim>\<open>finishSimulation(true)\<close>, so
  the call finds the run finished and already crashed, and returns at once.
\<close>

lemma handleCollision_finished:
  "hasFinished s \<Longrightarrow> \<not> hasCrashed s \<Longrightarrow> list_ex vehicle_obstacle_pair pairs \<Longrightarrow>
   handleCollision pairs s = s\<lparr>hasCrashed := True\<rparr>"
  by (simp add: handleCollision_def collisionPairs_hit finishSimulation_def)

text \<open>
  C1, as the code has it. If a run has been finalized with crashed = false and
  a collision of car and dummy is reported before the next reset, the crashed
  flag becomes true, the run stays finished, and the history is the same list
  as before: no second entry is added and the entry of the run is not
  rewritten.
\<close>

theorem late_collision:
  assumes "hasFinished s" and "\<not> hasCrashed s" and "list_ex vehicle_obstacle_pair pairs"
  shows "hasCrashed (handleCollision pairs s) \<and> hasFinished (handleCollision pairs s)
    \<and> isRunning (handleCollision pairs s) = isRunning s
    \<and> history_body (handleCollision pairs s) = history_body s"
  using assms by (simp add: handleCollision_def collisionPairs_hit finishSimulation_def)

theorem late_collision_witness:
  "hasFinished (run [ClickStart, EngineStep 200 (4 / 100) 0, BeforeUpdate] (init 1000))
   \<and> \<not> hasCrashed (run [ClickStart, EngineStep 200 (4 / 100) 0, BeforeUpdate] (init 1000))
   \<and> list_ex vehicle_obstacle_pair [(''ground'', ''car''), (''dummy'', ''car'')]
   \<and> hasCrashed (handleCollision [(''ground'', ''car''), (''dummy'', ''car'')]
        (run [ClickStart, EngineStep 200 (4 / 100) 0, BeforeUpdate] (init 1000)))
   \<and> length (history_body (handleCollision [(''ground'', ''car''), (''dummy'', ''car'')]
        (run [ClickStart, EngineStep 200 (4 / 100) 0, BeforeUpdate] (init 1000)))) = 1"
proof -
  let ?s = "run [ClickStart, EngineStep 200 (4 / 100) 0, BeforeUpdate] (init 1000)"
  let ?pairs = "[(''ground'', ''car''), (''dummy'', ''car'')]"
  have f: "hasFinished ?s" and c: "\<not> hasCrashed ?s" and n: "length (history_body ?s) = 1"
    by code_simp+
  have p: "list_ex vehicle_obstacle_pair ?pairs"
    by (simp add: vehicle_obstacle_pair_def)
  from late_collision [OF f c p] f c p n show ?thesis
    by simp
qed

text \<open>
  C1 as stated fails. With the dummy at 550, a run stops at position 494 and
  records 34.4 m, not crashed; the car is then at 496 when the collision with
  the dummy is reported. The crashed flag is set, but the one history entry
  still shows the run as not crashed, with 34.4 m, and so does the overlay.
\<close>

theorem late_collision_keeps_row:
  "hasCrashed
     (run [ClickStart, EngineStep 494 (4 / 100) 0, BeforeUpdate,
           EngineStep 496 0 0, CollisionStart [(''car'', ''dummy'')]] (init 1000))
   \<and> history_body
     (run [ClickStart, EngineStep 494 (4 / 100) 0, BeforeUpdate,
           EngineStep 496 0 0, CollisionStart [(''car'', ''dummy'')]] (init 1000))
   = [\<lparr>row_speed = kmh30, row_weather = sunny, row_distance = Tenths 344,
       row_crashed = False\<rparr>]
   \<and> result_overlay
     (run [ClickStart, EngineStep 494 (4 / 100) 0, BeforeUpdate,
           EngineStep 496 0 0, CollisionStart [(''car'', ''dummy'')]] (init 1000))
   = Some (Tenths 344, False)"
  by code_simp

subsection \<open>Braking force\<close>

lemma BRAKING_FORCE_MAP_pos: "0 < BRAKING_FORCE_MAP w"
  by (cases w) simp_all

lemma BRAKING_FORCE_MAP_order:
  "BRAKING_FORCE_MAP icy < BRAKING_FORCE_MAP rainy
   \<and> BRAKING_FORCE_MAP rainy < BRAKING_FORCE_MAP sunny"
  by simp

text \<open>
  C3, as the code has it. On a tick of a running simulation at or after the
  brake line, the force added to the car is keyed on the signed velocity \<open>v\<close>
  along the travel axis: \<open>- v * b * m * 0.001\<close> when \<open>v > 0.5\<close>,
  \<open>- v * b * m * 0.01\<close> (ten times the factor) when \<open>0.01 < v \<le> 0.5\<close>, and no
  force when \<open>v \<le> 0.01\<close>, which includes every backward velocity. In the two
  force regimes the velocity is positive and the force is negative.
\<close>

theorem braking_force:
  assumes "isRunning s" and "brakingStarted s \<or> BRAKE_LINE_X \<le> position_x (carBody s)"
    and "v = velocity_x (carBody s)" and "b = BRAKING_FORCE_MAP (currentWeather s)"
    and "m = mass (carBody s)"
    and "F = force_x (carBody (handleUpdate s)) - force_x (carBody s)"
  shows "(1 / 2 < v \<longrightarrow> F = - v * b * m * (1 / 1000))
    \<and> (1 / 100 < v \<and> v \<le> 1 / 2 \<longrightarrow> F = - v * b * m * (1 / 100))
    \<and> (v \<le> 1 / 100 \<longrightarrow> F = 0)
    \<and> (1 / 100 < v \<and> 0 < m \<longrightarrow> F < 0)"
proof -
  have F: "F = (if v > 5 / 10 then - v * b * m * (1 / 1000)
                else if v > 1 / 100 then - v * b * m * (1 / 100) else 0)"
    using assms by (simp add: handleUpdate_alt checkStopped_force beforeStopCheck_force)
  have "0 < b"
    using assms(4) by (simp add: BRAKING_FORCE_MAP_pos)
  then have "1 / 100 < v \<Longrightarrow> 0 < m \<Longrightarrow> 0 < v * b * m"
    by simp
  with F show ?thesis
    by auto
qed

theorem braking_force_witness:
  "isRunning (run [ClickStart, EngineStep 200 8 0] (init 1000))
   \<and> BRAKE_LINE_X \<le> position_x (carBody (run [ClickStart, EngineStep 200 8 0] (init 1000)))
   \<and> force_x (carBody (handleUpdate (run [ClickStart, EngineStep 200 8 0] (init 1000))))
       - force_x (carBody (run [ClickStart, EngineStep 200 8 0] (init 1000))) = - (6 / 5)"
proof -
  let ?s = "run [ClickStart, EngineStep 200 8 0] (init 1000)"
  have r: "isRunning ?s" and x: "BRAKE_LINE_X \<le> position_x (carBody ?s)"
    and v: "8 = velocity_x (carBody ?s)" and b: "15 / 100 = BRAKING_FORCE_MAP (currentWeather ?s)"
    and m: "1000 = mass (carBody ?s)"
    by code_simp+
  from x have x': "brakingStarted ?s \<or> BRAKE_LINE_X \<le> position_x (carBody ?s)" ..
  from braking_force [OF r x' v b m refl] r x show ?thesis
    by simp
qed

text \<open>
  C3 as stated fails for a velocity whose magnitude exceeds 0.5 but which points
  backwards: the run is active, braking has started, the velocity is -1, and
  the update applies no force, where the claim has
  \<open>- v * b * m * 0.001 = 0.15\<close>.
\<close>

theorem braking_force_backwards:
  "isRunning
     (run [ClickStart, EngineStep 200 8 0, BeforeUpdate, EngineStep 205 (- 1) 0] (init 1000))
   \<and> brakingStarted
     (run [ClickStart, EngineStep 200 8 0, BeforeUpdate, EngineStep 205 (- 1) 0] (init 1000))
   \<and> \<bar>velocity_x (carBody
        (run [ClickStart, EngineStep 200 8 0, BeforeUpdate, EngineStep 205 (- 1) 0]
          (init 1000)))\<bar> = 1
   \<and> force_x (carBody
        (run [ClickStart, EngineStep 200 8 0, BeforeUpdate, EngineStep 205 (- 1) 0]
          (init 1000))) = 0
   \<and> force_x (carBody (handleUpdate
        (run [ClickStart, EngineStep 200 8 0, BeforeUpdate, EngineStep 205 (- 1) 0]
          (init 1000)))) = 0"
  by code_simp

subsection \<open>Stop detection\<close>

lemma observed_ticks_simps:
  "observed_ticks [] = []"
  "observed_ticks ((x, vx, vy) # qs) = EngineStep x vx vy # BeforeUpdate # observed_ticks qs"
  by (simp_all add: observed_ticks_def)

lemma stop_check_tick:
  assumes "isRunning s"
    and "active = ((brakingStarted s \<or> BRAKE_LINE_X \<le> position_x (carBody s))
                    \<and> \<not> hasCrashed s \<and> \<not> hasFinished s)"
    and "speed = \<bar>velocity_x (carBody s)\<bar>"
    and "s' = handleUpdate s"
  shows "(active \<and> speed < 3 / 10 \<and> (30 < lowSpeedCounter s + 1 \<or> speed < 5 / 100) \<longrightarrow>
            velocity_x (carBody s') = 0 \<and> velocity_y (carBody s') = 0
            \<and> hasFinished s' \<and> \<not> isRunning s' \<and> \<not> hasCrashed s'
            \<and> (\<exists>d. history_body s' =
                  \<lparr>row_speed = currentSpeed s, row_weather = currentWeather s,
                   row_distance = d, row_crashed = False\<rparr> # history_body s
                \<and> result_overlay s' = Some (d, False)))
    \<and> (active \<and> speed < 3 / 10 \<and> \<not> (30 < lowSpeedCounter s + 1 \<or> speed < 5 / 100) \<longrightarrow>
            lowSpeedCounter s' = lowSpeedCounter s + 1 \<and> \<not> hasFinished s' \<and> isRunning s'
            \<and> velocity_x (carBody s') = velocity_x (carBody s)
            \<and> history_body s' = history_body s)
    \<and> (active \<and> 3 / 10 \<le> speed \<longrightarrow>
            lowSpeedCounter s' = 0 \<and> \<not> hasFinished s' \<and> isRunning s'
            \<and> velocity_x (carBody s') = velocity_x (carBody s)
            \<and> history_body s' = history_body s)
    \<and> (\<not> active \<longrightarrow>
            lowSpeedCounter s' = lowSpeedCounter s \<and> hasFinished s' = hasFinished s
            \<and> isRunning s' \<and> history_body s' = history_body s
            \<and> result_overlay s' = result_overlay s)"
proof -
  let ?t = "beforeStopCheck s"
  have s': "s' = checkStopped ?t"
    using assms by (simp add: handleUpdate_alt)
  have act: "active = (brakingStarted ?t \<and> \<not> hasCrashed ?t \<and> \<not> hasFinished ?t)"
    using assms by (simp add: beforeStopCheck_fields)
  have vel: "active \<Longrightarrow> velocity_x (carBody ?t) = velocity_x (carBody s)"
    using assms by (simp add: beforeStopCheck_velocity)
  show ?thesis
    unfolding s' checkStopped_eq using act vel assms(1,3)
    by (auto simp: beforeStopCheck_fields finishSimulation_def prims Let_def)
qed

lemma finished_ticks:
  "hasFinished s \<Longrightarrow> \<not> isRunning s \<Longrightarrow> hasFinished (run (observed_ticks qs) s)"
proof (induction qs arbitrary: s)
  case Nil
  then show ?case by (simp add: observed_ticks_simps)
next
  case (Cons q qs)
  obtain x vx vy where q: "q = (x, vx, vy)" by (cases q)
  from Cons.prems show ?case
    by (simp add: q observed_ticks_simps handleUpdate_def engineStep_fields Cons.IH)
qed

lemma slow_tick:
  assumes "isRunning s" and "brakingStarted s" and "\<not> hasCrashed s" and "\<not> hasFinished s"
    and "5 / 100 \<le> \<bar>vx\<bar>" and "\<bar>vx\<bar> < 3 / 10"
    and "t = handleUpdate (engineStep x vx vy s)"
  shows "if 30 \<le> lowSpeedCounter s then hasFinished t \<and> \<not> isRunning t
         else isRunning t \<and> brakingStarted t \<and> \<not> hasCrashed t \<and> \<not> hasFinished t
              \<and> lowSpeedCounter t = lowSpeedCounter s + 1"
  using assms
  by (simp add: handleUpdate_alt checkStopped_eq beforeStopCheck_fields beforeStopCheck_velocity
      engineStep_fields finishSimulation_flags finishSimulation_fields prims)

lemma slow_ticks_finish:
  assumes "isRunning s" and "brakingStarted s" and "\<not> hasCrashed s" and "\<not> hasFinished s"
    and "lowSpeedCounter s \<le> 30"
    and "list_all (\<lambda>(x, vx, vy). 5 / 100 \<le> \<bar>vx\<bar> \<and> \<bar>vx\<bar> < 3 / 10) qs"
  shows "hasFinished (run (observed_ticks qs) s) = (30 < lowSpeedCounter s + length qs)"
  using assms
proof (induction qs arbitrary: s)
  case Nil
  then show ?case by (simp add: observed_ticks_simps)
next
  case (Cons q qs)
  obtain x vx vy where q: "q = (x, vx, vy)" by (cases q)
  let ?t = "handleUpdate (engineStep x vx vy s)"
  from Cons.prems q have slow: "5 / 100 \<le> \<bar>vx\<bar>" "\<bar>vx\<bar> < 3 / 10"
    and rest: "list_all (\<lambda>(x, vx, vy). 5 / 100 \<le> \<bar>vx\<bar> \<and> \<bar>vx\<bar> < 3 / 10) qs"
    by simp_all
  note tick = slow_tick [OF Cons.prems(1-4) slow refl, of x vy]
  show ?case
  proof (cases "30 \<le> lowSpeedCounter s")
    case True
    with tick have "hasFinished ?t" "\<not> isRunning ?t" by simp_all
    then have "hasFinished (run (observed_ticks qs) ?t)" by (rule finished_ticks)
    with True show ?thesis by (simp add: q observed_ticks_simps)
  next
    case False
    with tick have t: "isRunning ?t" "brakingStarted ?t" "\<not> hasCrashed ?t" "\<not> hasFinished ?t"
      and n: "lowSpeedCounter ?t = lowSpeedCounter s + 1"
      by simp_all
    from False n have "lowSpeedCounter ?t \<le> 30" by simp
    from Cons.IH [OF t this rest] n show ?thesis
      by (simp add: q observed_ticks_simps)
  qed
qed

text \<open>
  C4. On a tick of a running simulation, stop detection is active only when
  braking has started (the brake line is reached) and the run is neither
  crashed nor finished; otherwise the counter, the finished flag and the
  history stay as they are. When it is active and the speed \<open>\<bar>v\<bar>\<close> is below
  0.3, the counter goes up by one, and if it then exceeds 30 or the speed is
  below 0.05 the velocity is set to zero and the run is finalized with
  crashed = false; a speed of 0.3 or more sets the counter to 0. Over ticks
  whose speeds all lie in \<open>[0.05, 0.3)\<close> the run is finalized exactly when the
  counter plus the number of ticks exceeds 30: from counter 0, on the 31st
  consecutive slow tick.
\<close>

theorem stop_detection:
  assumes "isRunning s"
    and "active = ((brakingStarted s \<or> BRAKE_LINE_X \<le> position_x (carBody s))
                    \<and> \<not> hasCrashed s \<and> \<not> hasFinished s)"
    and "speed = \<bar>velocity_x (carBody s)\<bar>"
    and "s' = handleUpdate s"
  shows "(active \<and> speed < 3 / 10 \<and> (30 < lowSpeedCounter s + 1 \<or> speed < 5 / 100) \<longrightarrow>
            velocity_x (carBody s') = 0 \<and> velocity_y (carBody s') = 0
            \<and> hasFinished s' \<and> \<not> isRunning s' \<and> \<not> hasCrashed s'
            \<and> (\<exists>d. history_body s' =
                  \<lparr>row_speed = currentSpeed s, row_weather = currentWeather s,
                   row_distance = d, row_crashed = False\<rparr> # history_body s
                \<and> result_overlay s' = Some (d, False)))
    \<and> (active \<and> speed < 3 / 10 \<and> \<not> (30 < lowSpeedCounter s + 1 \<or> speed < 5 / 100) \<longrightarrow>
            lowSpeedCounter s' = lowSpeedCounter s + 1 \<and> \<not> hasFinished s' \<and> isRunning s'
            \<and> velocity_x (carBody s') = velocity_x (carBody s)
            \<and> history_body s' = history_body s)
    \<and> (active \<and> 3 / 10 \<le> speed \<longrightarrow>
            lowSpeedCounter s' = 0 \<and> \<not> hasFinished s' \<and> isRunning s'
            \<and> velocity_x (carBody s') = velocity_x (carBody s)
            \<and> history_body s' = history_body s)
    \<and> (\<not> active \<longrightarrow>
            lowSpeedCounter s' = lowSpeedCounter s \<and> hasFinished s' = hasFinished s
            \<and> isRunning s' \<and> history_body s' = history_body s
            \<and> result_overlay s' = result_overlay s)
    \<and> (active \<and> brakingStarted s \<and> lowSpeedCounter s \<le> 30
         \<and> list_all (\<lambda>(x, vx, vy). 5 / 100 \<le> \<bar>vx\<bar> \<and> \<bar>vx\<bar> < 3 / 10) qs \<longrightarrow>
            hasFinished (run (observed_ticks qs) s) = (30 < lowSpeedCounter s + length qs))"
proof -
  have "hasFinished (run (observed_ticks qs) s) = (30 < lowSpeedCounter s + length qs)"
    if "active" "brakingStarted s" "lowSpeedCounter s \<le> 30"
      "list_all (\<lambda>(x, vx, vy). 5 / 100 \<le> \<bar>vx\<bar> \<and> \<bar>vx\<bar> < 3 / 10) qs"
  proof -
    from that(1) assms(2) have "\<not> hasCrashed s" "\<not> hasFinished s" by simp_all
    with assms(1) that(2) show ?thesis
      using that(3,4) by (rule slow_ticks_finish)
  qed
  with stop_check_tick [OF assms] show ?thesis
    by blast
qed

theorem stop_detection_witness:
  "isRunning (run [ClickStart, EngineStep 200 8 0, BeforeUpdate, EngineStep 230 (1 / 5) 0] (init 1000))
   \<and> brakingStarted (run [ClickStart, EngineStep 200 8 0, BeforeUpdate, EngineStep 230 (1 / 5) 0] (init 1000))
   \<and> lowSpeedCounter (handleUpdate
        (run [ClickStart, EngineStep 200 8 0, BeforeUpdate, EngineStep 230 (1 / 5) 0] (init 1000))) = 1
   \<and> hasFinished (run (observed_ticks (replicate 31 (231, 1 / 5, 0)))
        (run [ClickStart, EngineStep 200 8 0, BeforeUpdate, EngineStep 230 (1 / 5) 0] (init 1000)))
   \<and> \<not> hasFinished (run (observed_ticks (replicate 30 (231, 1 / 5, 0)))
        (run [ClickStart, EngineStep 200 8 0, BeforeUpdate, EngineStep 230 (1 / 5) 0] (init 1000)))"
proof -
  let ?s = "run [ClickStart, EngineStep 200 8 0, BeforeUpdate, EngineStep 230 (1 / 5) 0] (init 1000)"
  have r: "isRunning ?s" and b: "brakingStarted ?s" and c: "\<not> hasCrashed ?s"
    and f: "\<not> hasFinished ?s" and n: "lowSpeedCounter ?s = 0"
    and v: "1 / 5 = \<bar>velocity_x (carBody ?s)\<bar>"
    by code_simp+
  from b c f have a: "True = ((brakingStarted ?s \<or> BRAKE_LINE_X \<le> position_x (carBody ?s))
      \<and> \<not> hasCrashed ?s \<and> \<not> hasFinished ?s)"
    by simp
  have q: "list_all (\<lambda>(x, vx, vy). 5 / 100 \<le> \<bar>vx\<bar> \<and> \<bar>vx\<bar> < 3 / 10) (replicate k (231 :: rat, 1 / 5 :: rat, 0 :: rat))"
    for k :: nat
    by (simp add: list_all_iff)
  from stop_detection [OF r a v refl, of "replicate 31 (231, 1 / 5, 0)"] b n q [of 31]
  have t31: "hasFinished (run (observed_ticks (replicate 31 (231, 1 / 5, 0))) ?s)"
    and one: "lowSpeedCounter (handleUpdate ?s) = 1"
    by simp_all
  from stop_detection [OF r a v refl, of "replicate 30 (231, 1 / 5, 0)"] b n q [of 30]
  have t30: "\<not> hasFinished (run (observed_ticks (replicate 30 (231, 1 / 5, 0))) ?s)"
    by simp
  from r b one t31 t30 show ?thesis
    by blast
qed

subsection \<open>Crashes come from collision notifications\<close>

lemma handleUpdate_hasCrashed: "hasCrashed (handleUpdate s) = hasCrashed s"
  by (simp add: handleUpdate_alt checkStopped_hasCrashed beforeStopCheck_fields)

lemma step_hasCrashed:
  "hasCrashed (step e s) \<Longrightarrow> hasCrashed s \<or> crash_notification e"
proof (cases e)
  case BeforeUpdate
  assume "hasCrashed (step e s)"
  with BeforeUpdate show ?thesis by (simp add: handleUpdate_hasCrashed)
next
  case (CollisionStart pairs)
  assume "hasCrashed (step e s)"
  with CollisionStart show ?thesis
    by (cases "list_ex vehicle_obstacle_pair pairs")
      (auto simp: handleCollision_def collisionPairs_miss split: if_splits)
qed (auto simp: clicks prims Let_def split: if_splits)

lemma step_crash_rows:
  "\<not> crash_notification e \<Longrightarrow>
   filter row_crashed (history_body (step e s)) = filter row_crashed (history_body s)"
proof (cases e)
  case BeforeUpdate
  then show ?thesis
    by (simp add: handleUpdate_alt checkStopped_reports beforeStopCheck_fields)
next
  case (CollisionStart pairs)
  assume "\<not> crash_notification e"
  with CollisionStart show ?thesis
    by (simp add: handleCollision_def collisionPairs_miss)
qed (auto simp: clicks prims Let_def)

lemma step_crash_overlay:
  "\<not> crash_notification e \<Longrightarrow> result_overlay (step e s) = Some (d, True) \<Longrightarrow>
   result_overlay s = Some (d, True)"
proof (cases e)
  case BeforeUpdate
  assume "result_overlay (step e s) = Some (d, True)"
  with BeforeUpdate show ?thesis
    by (auto simp: handleUpdate_alt beforeStopCheck_fields
        dest: checkStopped_reports(2) split: if_splits)
next
  case (CollisionStart pairs)
  assume "\<not> crash_notification e" and "result_overlay (step e s) = Some (d, True)"
  with CollisionStart show ?thesis
    by (simp add: handleCollision_def collisionPairs_miss split: if_splits)
qed (auto simp: clicks prims Let_def split: if_splits)

lemma crashed_has_notification:
  "hasCrashed (run es s) \<Longrightarrow> \<not> hasCrashed s \<Longrightarrow>
   \<exists>es1 pairs es2. es = es1 @ CollisionStart pairs # es2
      \<and> list_ex vehicle_obstacle_pair pairs
      \<and> \<not> hasCrashed (run es1 s)
      \<and> (\<forall>k\<le>length es2. hasCrashed (run (es1 @ CollisionStart pairs # take k es2) s))"
proof (induction es rule: rev_induct)
  case Nil
  then show ?case by simp
next
  case (snoc e es)
  show ?case
  proof (cases "hasCrashed (run es s)")
    case True
    from snoc.IH [OF True snoc.prems(2)] obtain es1 pairs es2 where
      es: "es = es1 @ CollisionStart pairs # es2"
      and hit: "list_ex vehicle_obstacle_pair pairs"
      and before: "\<not> hasCrashed (run es1 s)"
      and since: "\<forall>k\<le>length es2. hasCrashed (run (es1 @ CollisionStart pairs # take k es2) s)"
      by blast
    have "\<forall>k\<le>length (es2 @ [e]).
            hasCrashed (run (es1 @ CollisionStart pairs # take k (es2 @ [e])) s)"
    proof (intro allI impI)
      fix k assume k: "k \<le> length (es2 @ [e])"
      show "hasCrashed (run (es1 @ CollisionStart pairs # take k (es2 @ [e])) s)"
      proof (cases "k \<le> length es2")
        case True
        with since show ?thesis by simp
      next
        case False
        with k have "take k (es2 @ [e]) = es2 @ [e]" by simp
        with snoc.prems(1) es show ?thesis by simp
      qed
    qed
    with es hit before show ?thesis
      by (intro exI [of _ es1] exI [of _ pairs] exI [of _ "es2 @ [e]"]) simp
  next
    case False
    from snoc.prems(1) have "hasCrashed (step e (run es s))"
      by (simp add: run_snoc)
    with False have "crash_notification e"
      using step_hasCrashed by blast
    then obtain pairs where e: "e = CollisionStart pairs"
      and hit: "list_ex vehicle_obstacle_pair pairs"
      by (cases e) simp_all
    with False snoc.prems(1) show ?thesis
      by (intro exI [of _ es] exI [of _ pairs] exI [of _ "[]"]) simp
  qed
qed

lemma init_flags:
  "\<not> hasCrashed (init w)" "\<not> hasFinished (init w)" "\<not> isRunning (init w)"
  "\<not> start_btn_disabled (init w)" "history_body (init w) = []"
  by (simp_all add: init_def resetWorld_def prims)

text \<open>
  C7. The crashed flag goes from false to true only in a step that is a
  collision callback reporting the car and the dummy, in either order. No
  other step adds a crashed row to the history or puts a crash on the overlay.
  Whenever the flag is set after a sequence of events from the loaded page,
  the sequence contains such a callback before which the flag was clear and
  since which the flag has been set without interruption, so no reset or start
  lies in between.
\<close>

theorem crashed_only_by_collision:
  "(hasCrashed (step e s) \<and> \<not> hasCrashed s \<longrightarrow> crash_notification e)
   \<and> (\<not> crash_notification e \<longrightarrow>
        filter row_crashed (history_body (step e s)) = filter row_crashed (history_body s)
        \<and> (result_overlay (step e s) = Some (d, True) \<longrightarrow> result_overlay s = Some (d, True)))
   \<and> (hasCrashed (run es (init w)) \<longrightarrow>
        (\<exists>es1 pairs es2. es = es1 @ CollisionStart pairs # es2
           \<and> list_ex vehicle_obstacle_pair pairs
           \<and> \<not> hasCrashed (run es1 (init w))
           \<and> (\<forall>k\<le>length es2.
                 hasCrashed (run (es1 @ CollisionStart pairs # take k es2) (init w)))))"
  using step_hasCrashed [of e s] step_crash_rows [of e s] step_crash_overlay [of e s d]
    crashed_has_notification [of es "init w"] init_flags(1) [of w]
  by blast

theorem crashed_only_by_collision_witness:
  "hasCrashed (step (CollisionStart [(''car'', ''dummy'')]) (run [ClickStart] (init 1000)))
   \<and> \<not> hasCrashed (run [ClickStart] (init 1000))
   \<and> crash_notification (CollisionStart [(''car'', ''dummy'')])
   \<and> \<not> crash_notification BeforeUpdate
   \<and> filter row_crashed (history_body (step BeforeUpdate (run [ClickStart] (init 1000))))
       = filter row_crashed (history_body (run [ClickStart] (init 1000)))
   \<and> hasCrashed (run [ClickStart, CollisionStart [(''dummy'', ''car'')], BeforeUpdate] (init 1000))
   \<and> (\<exists>es1 pairs es2.
         [ClickStart, CollisionStart [(''dummy'', ''car'')], BeforeUpdate]
           = es1 @ CollisionStart pairs # es2
         \<and> list_ex vehicle_obstacle_pair pairs)"
proof -
  let ?s = "run [ClickStart] (init 1000)"
  let ?es = "[ClickStart, CollisionStart [(''dummy'', ''car'')], BeforeUpdate]"
  have a: "hasCrashed (step (CollisionStart [(''car'', ''dummy'')]) ?s)"
    and b: "\<not> hasCrashed ?s"
    and t: "hasCrashed (run ?es (init 1000))"
    by code_simp+
  from crashed_only_by_collision [of "CollisionStart [(''car'', ''dummy'')]" ?s "Tenths 0" "[]" 1000] a b
  have c: "crash_notification (CollisionStart [(''car'', ''dummy'')])"
    by blast
  have n: "\<not> crash_notification BeforeUpdate"
    by simp
  from crashed_only_by_collision [of BeforeUpdate ?s "Tenths 0" ?es 1000] n t
  have "filter row_crashed (history_body (step BeforeUpdate ?s))
      = filter row_crashed (history_body ?s)"
    and "\<exists>es1 pairs es2. ?es = es1 @ CollisionStart pairs # es2
         \<and> list_ex vehicle_obstacle_pair pairs"
    by blast+
  with a b c n t show ?thesis
    by blast
qed

subsection \<open>The running flag, the finished flag and the start button\<close>

lemma step_running_inv:
  assumes "isRunning s \<longrightarrow> start_btn_disabled s \<and> \<not> hasFinished s"
  shows "isRunning (step e s) \<longrightarrow> start_btn_disabled (step e s) \<and> \<not> hasFinished (step e s)"
proof (cases e)
  case BeforeUpdate
  with assms show ?thesis
    by (auto simp: handleUpdate_alt checkStopped_button beforeStopCheck_fields
        dest!: checkStopped_running)
next
  case (CollisionStart pairs)
  with assms collisionPairs_cases [of pairs s] show ?thesis
    by (auto simp: handleCollision_def finishSimulation_flags finishSimulation_fields)
qed (use assms in \<open>auto simp: clicks prims Let_def\<close>)

lemma running_inv:
  "isRunning (run es (init w)) \<longrightarrow>
     start_btn_disabled (run es (init w)) \<and> \<not> hasFinished (run es (init w))"
proof (rule run_invariant)
  show "isRunning (init w) \<longrightarrow> start_btn_disabled (init w) \<and> \<not> hasFinished (init w)"
    by (simp add: init_flags)
qed (rule step_running_inv)

lemma handleUpdate_button: "start_btn_disabled (handleUpdate s) = start_btn_disabled s"
  by (simp add: handleUpdate_alt checkStopped_button beforeStopCheck_fields)

lemma handleCollision_button:
  "start_btn_disabled (handleCollision pairs s) = start_btn_disabled s"
  using collisionPairs_cases [of pairs s]
  by (auto simp: handleCollision_def finishSimulation_fields)

lemma step_button_enabled:
  "start_btn_disabled s \<Longrightarrow> \<not> start_btn_disabled (step e s) \<Longrightarrow>
   e = ClickReset \<or> (selection e \<and> \<not> isRunning s)"
  by (cases e)
    (auto simp: handleUpdate_button handleCollision_button clicks prims Let_def
      split: if_splits)

lemma step_button_disabled:
  "\<not> start_btn_disabled s \<Longrightarrow> start_btn_disabled (step e s) \<Longrightarrow>
   e = ClickStart \<and> \<not> isRunning s"
  by (cases e)
    (auto simp: handleUpdate_button handleCollision_button clicks prims Let_def
      split: if_splits)

lemma selection_running: "selection e \<Longrightarrow> isRunning s \<Longrightarrow> step e s = s"
  by (cases e) (simp_all add: selectSpeed_def selectWeather_def selectDistance_def)

lemma run_button_stays:
  "start_btn_disabled s \<Longrightarrow> list_all (\<lambda>e. e \<noteq> ClickReset \<and> \<not> selection e) fs \<Longrightarrow>
   start_btn_disabled (run fs s)"
proof (induction fs arbitrary: s)
  case Nil
  then show ?case by simp
next
  case (Cons e fs)
  from Cons.prems have "start_btn_disabled (step e s)"
    using step_button_enabled [of s e] by auto
  with Cons.prems Cons.IH [of "step e s"] show ?case
    by simp
qed

text \<open>
  C9, as the code has it. In every state reached from the loaded page, the
  start button is disabled while the run is active. \<^verbatim>\<open>startSimulation\<close>
  disables it and \<^verbatim>\<open>resetWorld\<close> enables it. Nothing else writes it:
  finalization, the update callback, the collision callback and the engine
  leave it as it is, so it stays disabled when the run ends, until a reset.
  Over the events: the button goes from disabled to enabled only in a click on
  reset or in a selection made while no run is active, which is a
  \<^verbatim>\<open>resetWorld\<close> of the state with the selected value; a selection made while
  the run is active changes nothing; the button goes from enabled to disabled
  only in a click on start; and a disabled button stays disabled over any
  events that are neither a reset nor a selection.
\<close>

theorem start_control:
  "(isRunning (run es (init w)) \<longrightarrow> start_btn_disabled (run es (init w)))
   \<and> (\<not> isRunning s \<longrightarrow> start_btn_disabled (startSimulation s))
   \<and> \<not> start_btn_disabled (resetWorld s)
   \<and> start_btn_disabled (finishSimulation c s) = start_btn_disabled s
   \<and> start_btn_disabled (handleUpdate s) = start_btn_disabled s
   \<and> start_btn_disabled (handleCollision pairs s) = start_btn_disabled s
   \<and> start_btn_disabled (engineStep x vx vy s) = start_btn_disabled s
   \<and> (start_btn_disabled s \<and> \<not> start_btn_disabled (step e s) \<longrightarrow>
        e = ClickReset \<or> (selection e \<and> \<not> isRunning s))
   \<and> (\<not> start_btn_disabled s \<and> start_btn_disabled (step e s) \<longrightarrow>
        e = ClickStart \<and> \<not> isRunning s)
   \<and> (selection e \<and> isRunning s \<longrightarrow> step e s = s)
   \<and> (\<not> isRunning s \<longrightarrow>
        step (ClickSpeed k) s = resetWorld (s\<lparr>currentSpeed := k\<rparr>)
        \<and> step (ClickWeather wt) s = resetWorld (s\<lparr>currentWeather := wt\<rparr>)
        \<and> step (ClickDistance od) s = resetWorld (s\<lparr>currentObstacleDistance := od\<rparr>))
   \<and> step ClickReset s = resetWorld s
   \<and> (start_btn_disabled s \<and> list_all (\<lambda>e. e \<noteq> ClickReset \<and> \<not> selection e) fs \<longrightarrow>
        start_btn_disabled (run fs s))"
proof -
  have old: "(isRunning (run es (init w)) \<longrightarrow> start_btn_disabled (run es (init w)))
   \<and> (\<not> isRunning s \<longrightarrow> start_btn_disabled (startSimulation s))
   \<and> \<not> start_btn_disabled (resetWorld s)
   \<and> start_btn_disabled (finishSimulation c s) = start_btn_disabled s
   \<and> start_btn_disabled (handleUpdate s) = start_btn_disabled s
   \<and> start_btn_disabled (handleCollision pairs s) = start_btn_disabled s
   \<and> start_btn_disabled (engineStep x vx vy s) = start_btn_disabled s"
    using running_inv [of es w]
    by (simp add: handleUpdate_button handleCollision_button finishSimulation_fields
        startSimulation_def resetWorld_def engineStep_def prims Let_def)
  have sel: "\<not> isRunning s \<longrightarrow>
        step (ClickSpeed k) s = resetWorld (s\<lparr>currentSpeed := k\<rparr>)
        \<and> step (ClickWeather wt) s = resetWorld (s\<lparr>currentWeather := wt\<rparr>)
        \<and> step (ClickDistance od) s = resetWorld (s\<lparr>currentObstacleDistance := od\<rparr>)"
    by (simp add: selectSpeed_def selectWeather_def selectDistance_def)
  have reset: "step ClickReset s = resetWorld s"
    by simp
  from old sel reset step_button_enabled [of s e] step_button_disabled [of s e]
    selection_running [of e s] run_button_stays [of s fs]
  show ?thesis
    by blast
qed

theorem start_control_witness:
  "isRunning (run [ClickStart, EngineStep 200 8 0, BeforeUpdate] (init 1000))
   \<and> start_btn_disabled (run [ClickStart, EngineStep 200 8 0, BeforeUpdate] (init 1000))
   \<and> \<not> isRunning (init 1000)
   \<and> start_btn_disabled (startSimulation (init 1000))
   \<and> step (ClickWeather icy) (run [ClickStart, EngineStep 200 8 0, BeforeUpdate] (init 1000))
       = run [ClickStart, EngineStep 200 8 0, BeforeUpdate] (init 1000)
   \<and> start_btn_disabled
       (run [BeforeUpdate, CollisionStart [(''car'', ''dummy'')], EngineStep 3 0 0, ClickStart]
          (run [ClickStart, EngineStep 200 8 0, BeforeUpdate] (init 1000)))
   \<and> step (ClickSpeed kmh60) (init 1000) = resetWorld ((init 1000)\<lparr>currentSpeed := kmh60\<rparr>)"
proof -
  let ?es = "[ClickStart, EngineStep 200 8 0, BeforeUpdate]"
  let ?fs = "[BeforeUpdate, CollisionStart [(''car'', ''dummy'')], EngineStep 3 0 0, ClickStart]"
  have r: "isRunning (run ?es (init 1000))"
    and n: "\<not> isRunning (init 1000)"
    by code_simp+
  have sel: "selection (ClickWeather icy)"
    and fs: "list_all (\<lambda>e. e \<noteq> ClickReset \<and> \<not> selection e) ?fs"
    by simp_all
  note a = start_control [of ?es 1000 "init 1000" _ _ _ _ _ _ kmh60]
  note b = start_control [of ?es 1000 "run ?es (init 1000)" _ _ _ _ _ "ClickWeather icy" _ _ _ ?fs]
  from a r n have 1: "start_btn_disabled (run ?es (init 1000))"
    and 2: "start_btn_disabled (startSimulation (init 1000))"
    and 3: "step (ClickSpeed kmh60) (init 1000) = resetWorld ((init 1000)\<lparr>currentSpeed := kmh60\<rparr>)"
    by blast+
  from b r sel have 4: "step (ClickWeather icy) (run ?es (init 1000)) = run ?es (init 1000)"
    by blast
  from b 1 fs have 5: "start_btn_disabled (run ?fs (run ?es (init 1000)))"
    by blast
  from r n 1 2 3 4 5 show ?thesis
    by blast
qed

text \<open>
  C9 as stated fails: after a run has ended as stopped, the start button is
  still disabled.
\<close>

theorem start_control_after_stop:
  "hasFinished (run [ClickStart, EngineStep 200 (4 / 100) 0, BeforeUpdate] (init 1000))
   \<and> \<not> hasCrashed (run [ClickStart, EngineStep 200 (4 / 100) 0, BeforeUpdate] (init 1000))
   \<and> \<not> isRunning (run [ClickStart, EngineStep 200 (4 / 100) 0, BeforeUpdate] (init 1000))
   \<and> start_btn_disabled (run [ClickStart, EngineStep 200 (4 / 100) 0, BeforeUpdate] (init 1000))"
  by code_simp

lemma step_finished:
  "hasFinished s \<Longrightarrow> \<not> isRunning s \<Longrightarrow> \<not> restarts e \<Longrightarrow>
   hasFinished (step e s) \<and> \<not> isRunning (step e s)"
proof (cases e)
  case (CollisionStart pairs)
  assume "hasFinished s" "\<not> isRunning s"
  with CollisionStart collisionPairs_cases [of pairs s] show ?thesis
    by (auto simp: handleCollision_def finishSimulation_flags)
qed (auto simp: handleUpdate_def engineStep_fields)

lemma run_finished:
  "hasFinished s \<Longrightarrow> \<not> isRunning s \<Longrightarrow> list_all (\<lambda>e. \<not> restarts e) fs \<Longrightarrow>
   hasFinished (run fs s) \<and> \<not> isRunning (run fs s)"
proof (induction fs arbitrary: s)
  case Nil
  then show ?case by simp
next
  case (Cons e fs)
  from Cons.prems have "hasFinished (step e s) \<and> \<not> isRunning (step e s)"
    by (simp add: step_finished)
  with Cons.prems Cons.IH [of "step e s"] show ?case
    by simp
qed

text \<open>
  C10. Finalizing a run sets the finished flag and clears the running flag, and
  an update of a state that is not running returns the state unchanged:
  velocity, force and viewport included. In every state reached from the loaded
  page with the finished flag set, and after any further engine steps, updates
  and collision callbacks (no click), the run is still finished and not
  running, and the update returns the state unchanged.
\<close>

theorem finished_update_returns:
  "(\<not> hasFinished s \<longrightarrow>
      hasFinished (finishSimulation c s) \<and> \<not> isRunning (finishSimulation c s))
   \<and> (\<not> isRunning s \<longrightarrow> handleUpdate s = s)
   \<and> (hasFinished (run es (init w)) \<and> list_all (\<lambda>e. \<not> restarts e) fs \<longrightarrow>
        hasFinished (run (es @ fs) (init w)) \<and> \<not> isRunning (run (es @ fs) (init w))
        \<and> handleUpdate (run (es @ fs) (init w)) = run (es @ fs) (init w))"
proof -
  have "hasFinished (run (es @ fs) (init w)) \<and> \<not> isRunning (run (es @ fs) (init w))"
    if "hasFinished (run es (init w))" "list_all (\<lambda>e. \<not> restarts e) fs"
  proof -
    from that(1) running_inv [of es w] have "\<not> isRunning (run es (init w))"
      by blast
    with that show ?thesis
      by (simp add: run_append run_finished)
  qed
  then show ?thesis
    by (auto simp: finishSimulation_flags handleUpdate_def)
qed

theorem finished_update_returns_witness:
  "\<not> hasFinished (init 1000) \<and> hasFinished (finishSimulation True (init 1000))
   \<and> \<not> isRunning (finishSimulation True (init 1000))
   \<and> hasFinished (run [ClickStart, EngineStep 200 (4 / 100) 0, BeforeUpdate] (init 1000))
   \<and> list_all (\<lambda>e. \<not> restarts e)
        [EngineStep 201 3 0, BeforeUpdate, CollisionStart [(''car'', ''dummy'')]]
   \<and> handleUpdate
        (run ([ClickStart, EngineStep 200 (4 / 100) 0, BeforeUpdate]
              @ [EngineStep 201 3 0, BeforeUpdate, CollisionStart [(''car'', ''dummy'')]])
           (init 1000))
       = run ([ClickStart, EngineStep 200 (4 / 100) 0, BeforeUpdate]
              @ [EngineStep 201 3 0, BeforeUpdate, CollisionStart [(''car'', ''dummy'')]])
           (init 1000)"
proof -
  let ?es = "[ClickStart, EngineStep 200 (4 / 100) 0, BeforeUpdate]"
  let ?fs = "[EngineStep 201 3 0, BeforeUpdate, CollisionStart [(''car'', ''dummy'')]]"
  have a: "\<not> hasFinished (init 1000)" and b: "hasFinished (run ?es (init 1000))"
    by code_simp+
  have c: "list_all (\<lambda>e. \<not> restarts e) ?fs"
    by simp
  from finished_update_returns [of "init 1000" True ?es 1000 ?fs] a b c show ?thesis
    by blast
qed

end
